theory Spec2Isabelle
  imports Main "HOL-Library.Word"
begin

section \<open>The lexer (src/lex.c)\<close>

subsection \<open>Tokens and failures\<close>

text \<open>
  The token kinds are the indices of the \<open>tok_names\<close> table of \<open>tok_to_str\<close>, preceded by
  \<open>INVALID_TOK\<close> (the value \<open>lookup_keyword\<close> yields for a word that is no keyword).
  The kinds \<open>CONST\<close> and \<open>CHAR\<close> are written \<open>CONST_TOK\<close> and \<open>CHAR_TOK\<close>: the
  plain names are reserved words of the term language.
\<close>

datatype (plugins only:) tok_kind =
    INVALID_TOK
  | LET | VAR | IMPURE | CONST_TOK | VOLATILE | IDENT | TYPEDEF | TRUE | FALSE
  | INT_LIT | FLOAT_LIT | CHAR_LIT | STRING_LIT
  | PLUS_PLUS | MINUS_MINUS | PLUS | MINUS | STAR | SLASH | PERCENT
  | LT | GT | LT_EQ | GT_EQ | EQ_EQ | BANG_EQ
  | AMP | PIPE | CARET | TILDE | LT_LT | GT_GT | AMP_AMP | PIPE_PIPE | BANG | EQ
  | PLUS_EQ | MINUS_EQ | STAR_EQ | SLASH_EQ | PERCENT_EQ
  | AMP_EQ | PIPE_EQ | CARET_EQ | LT_LT_EQ | GT_GT_EQ
  | IF | THEN | ELSE | DO | WHILE | FOR | SWITCH | BREAK | CONTINUE | DEFER | RETURN
  | U8 | U16 | U32 | U64 | I8 | I16 | I32 | I64 | F32 | F64 | BOOL | VOID | CHAR_TOK
  | DOT | COLON | SEMICOLON | COMMA | ARROW | BACK_ARROW | BIG_ARROW | BACKSLASH
  | UNDERSCORE
  | OPEN_BRACKET | CLOSE_BRACKET | OPEN_PAREN | CLOSE_PAREN | OPEN_BRACE | CLOSE_BRACE
  | TEOF

text \<open>
  The payload union \<open>u\<close> of \<open>struct tok\<close>. A float literal carries the double that
  \<open>strtod\<close> returns for its text; floating point is not modelled, so the payload is
  the text itself. A string literal carries its bytes and the counted length.
\<close>

datatype tok_u =
    U_none
  | U_int_lit "64 word"
  | U_float_lit string
  | U_char_lit "32 word"
  | U_string_lit string nat
  | U_ident string

record tok =
  kind :: tok_kind
  tok_lineno :: nat
  u :: tok_u

text \<open>Every \<open>fatal_error(lineno, ...)\<close> of the lexer, by its message.\<close>

datatype fatal_msg =
    SourceTooLong
  | EofInLineComment
  | EofInBlockComment
  | InvalidCharLit
  | StringLitTooLong
  | InvalidStringLit
  | IdentTooLong
  | MultipleRadixPoints
  | NumTooManyChars
  | NumNoDigits
  | RadixPointAtBeginning
  | RadixPointAtEnd
  | FloatNotBase10
  | FloatTooLarge
  | IntTooLarge
  | LeadingZero
  | InvalidToken char

text \<open>
  A run of the lexer ends the process with \<open>fatal_error\<close> (the line and the message),
  with \<open>internal_error\<close>, or reads a byte outside the mapped buffer (undefined
  behaviour in C, kept apart here as \<open>OutOfBounds\<close>).
\<close>

datatype failure = Fatal nat fatal_msg | InternalError | OutOfBounds

subsection \<open>The scanner state\<close>

text \<open>
  \<open>init_lex\<close> maps the file and writes a NUL byte after its last byte. The pointer
  \<open>inp\<close> into that buffer is modelled by the bytes from \<open>inp\<close> to the end of the
  buffer, the final NUL included: \<open>*inp\<close> is the head, \<open>inp++\<close> drops it, and the empty
  list is a pointer past the buffer.
\<close>

record lexer =
  inp :: string
  lineno :: nat

abbreviation NUL :: char where "NUL \<equiv> CHR 0x00"
abbreviation NL :: char where "NL \<equiv> CHR 0x0A"

text \<open>
  \<open>init_lex file\<close> is the state \<open>init_lex\<close> leaves when it returns, for a file with
  the bytes \<open>file\<close>. It does not return for every file: it exits when the file cannot
  be opened or mapped, and the write of the final NUL lands on a page beyond the end
  of the file (a bus error) when the file is empty or its size is a multiple of the
  page size. The properties below apply \<open>init_lex\<close> to short, non-empty files only.
\<close>

definition init_lex :: "string \<Rightarrow> lexer" where
  "init_lex file = \<lparr>inp = file @ [NUL], lineno = 1\<rparr>"

definition MAX_LINENO :: nat where "MAX_LINENO = 65536"
definition MAX_NUM_CHARS :: nat where "MAX_NUM_CHARS = 128"

text \<open>
  What lex.c takes from headers and files that are not among the sources, as
  parameters of the scanner: the two limits of lex.h, the three functions of utf8.h,
  and whether \<open>strtod\<close> reports \<open>ERANGE\<close> for a text. \<open>str_to_code_point\<close> is given the bytes at \<open>inp\<close> and returns
  the code point with the number of bytes it decoded.
\<close>

record lex_env =
  MAX_STRING_SIZE :: nat
  MAX_IDENT_SIZE :: nat
  is_valid_utf8 :: "string \<Rightarrow> bool"
  str_to_code_point :: "string \<Rightarrow> 32 word \<times> nat"
  is_valid_code_point :: "nat \<Rightarrow> bool"
  strtod_ERANGE :: "string \<Rightarrow> bool"

subsection \<open>Character classes (ctype.h in the C locale)\<close>

text \<open>
  \<open>IN_RANGE\<close> is a macro of quoftc.h, which is not among the sources; both bounds
  belong to the range, as its use for the octal digits \<open>0\<close> to \<open>7\<close> and the letters \<open>A\<close> to
  \<open>F\<close> requires. The classes of ctype.h hold of no byte above 127.
\<close>

definition IN_RANGE :: "char \<Rightarrow> char \<Rightarrow> char \<Rightarrow> bool" where
  "IN_RANGE c lo hi = ((of_char lo :: nat) \<le> of_char c \<and> (of_char c :: nat) \<le> of_char hi)"

definition isspace :: "char \<Rightarrow> bool" where
  "isspace c = (c = CHR '' '' \<or> IN_RANGE c (CHR 0x09) (CHR 0x0D))"

definition isdigit :: "char \<Rightarrow> bool" where
  "isdigit c = IN_RANGE c (CHR ''0'') (CHR ''9'')"

definition isalpha :: "char \<Rightarrow> bool" where
  "isalpha c = (IN_RANGE c (CHR ''A'') (CHR ''Z'') \<or> IN_RANGE c (CHR ''a'') (CHR ''z''))"

definition isalnum :: "char \<Rightarrow> bool" where
  "isalnum c = (isalpha c \<or> isdigit c)"

subsection \<open>Line counting, comments and white space\<close>

definition inc_lineno :: "lexer \<Rightarrow> failure + lexer" where
  "inc_lineno st =
     (if lineno st = MAX_LINENO then Inl (Fatal (lineno st) SourceTooLong)
      else Inr (st\<lparr>lineno := lineno st + 1\<rparr>))"

text \<open>\<open>inp[0] == a && inp[1] == b\<close>: the second byte is read only when the first matches.\<close>

definition starts2 :: "string \<Rightarrow> char \<Rightarrow> char \<Rightarrow> failure + bool" where
  "starts2 s a b =
     (case s of
        [] \<Rightarrow> Inl OutOfBounds
      | c # cs \<Rightarrow>
          if c = a then (case cs of [] \<Rightarrow> Inl OutOfBounds | d # _ \<Rightarrow> Inr (d = b))
          else Inr False)"

text \<open>
  The \<open>for (;;)\<close> loops of \<open>skip_line_comment\<close> and \<open>skip_block_comment\<close>, entered
  after \<open>inp += 2\<close>; the arguments are \<open>inp\<close> and \<open>lineno\<close>. A newline inside a block
  comment is not NUL, so the test for the end of the input is skipped after it.
\<close>

fun skip_line_comment_loop :: "string \<Rightarrow> nat \<Rightarrow> failure + lexer" where
  "skip_line_comment_loop [] ln = Inl OutOfBounds"
| "skip_line_comment_loop (c # cs) ln =
     (if c = NL then inc_lineno \<lparr>inp = cs, lineno = ln\<rparr>
      else if c = NUL then Inl (Fatal ln EofInLineComment)
      else skip_line_comment_loop cs ln)"

definition skip_line_comment :: "lexer \<Rightarrow> failure + lexer" where
  "skip_line_comment st = skip_line_comment_loop (drop 2 (inp st)) (lineno st)"

fun skip_block_comment_loop :: "string \<Rightarrow> nat \<Rightarrow> failure + lexer" where
  "skip_block_comment_loop [] ln = Inl OutOfBounds"
| "skip_block_comment_loop (c # cs) ln =
     (case starts2 (c # cs) (CHR ''*'') (CHR ''/'') of
        Inl e \<Rightarrow> Inl e
      | Inr True \<Rightarrow> Inr \<lparr>inp = drop 1 cs, lineno = ln\<rparr>
      | Inr False \<Rightarrow>
          if c = NL then
            (case inc_lineno \<lparr>inp = c # cs, lineno = ln\<rparr> of
               Inl e \<Rightarrow> Inl e
             | Inr st \<Rightarrow> skip_block_comment_loop cs (lineno st))
          else if c = NUL then Inl (Fatal ln EofInBlockComment)
          else skip_block_comment_loop cs ln)"

definition skip_block_comment :: "lexer \<Rightarrow> failure + lexer" where
  "skip_block_comment st = skip_block_comment_loop (drop 2 (inp st)) (lineno st)"

lemma inc_lineno_inp: "inc_lineno st = Inr st' \<Longrightarrow> inp st' = inp st"
  by (auto simp: inc_lineno_def split: if_splits)

lemma skip_line_comment_loop_shorter:
  "skip_line_comment_loop s ln = Inr st' \<Longrightarrow> length (inp st') < length s"
  by (induction s ln rule: skip_line_comment_loop.induct)
     (auto split: if_splits dest!: inc_lineno_inp)

lemma starts2_True_length: "starts2 s a b = Inr True \<Longrightarrow> 2 \<le> length s"
  by (auto simp: starts2_def split: list.splits if_splits)

lemma skip_block_comment_loop_shorter:
  "skip_block_comment_loop s ln = Inr st' \<Longrightarrow> length (inp st') < length s"
proof (induction s ln arbitrary: st' rule: skip_block_comment_loop.induct)
  case (1 ln)
  then show ?case by simp
next
  case (2 c cs ln)
  show ?case
  proof (cases "starts2 (c # cs) (CHR ''*'') (CHR ''/'')")
    case (Inl e)
    with 2 show ?thesis by simp
  next
    case (Inr b)
    show ?thesis
    proof (cases b)
      case True
      with Inr 2 have "st' = \<lparr>inp = drop 1 cs, lineno = ln\<rparr>" by simp
      then show ?thesis by simp
    next
      case False
      with Inr have nb: "starts2 (c # cs) (CHR ''*'') (CHR ''/'') = Inr False" by simp
      show ?thesis
      proof (cases "c = NL")
        case True
        show ?thesis
        proof (cases "inc_lineno \<lparr>inp = c # cs, lineno = ln\<rparr>")
          case (Inl e)
          with 2(3) nb True show ?thesis by simp
        next
          case (Inr st)
          with 2(3) nb True have "skip_block_comment_loop cs (lineno st) = Inr st'" by simp
          from "2.IH"(1) [OF nb refl True Inr this] show ?thesis by simp
        qed
      next
        case False
        with 2(3) nb have ne: "c \<noteq> NUL" and r: "skip_block_comment_loop cs ln = Inr st'"
          by (simp_all split: if_splits)
        from "2.IH"(2) [OF nb refl False ne r] show ?thesis by simp
      qed
    qed
  qed
qed

function skip_spaces :: "lexer \<Rightarrow> failure + lexer" where
  "skip_spaces st =
     (case inp st of
        [] \<Rightarrow> Inl OutOfBounds
      | c # cs \<Rightarrow>
          if isspace c then
            (case (if c = NL then inc_lineno st else Inr st) of
               Inl e \<Rightarrow> Inl e
             | Inr st1 \<Rightarrow> skip_spaces (st1\<lparr>inp := cs\<rparr>))
          else
            (case starts2 (inp st) (CHR ''/'') (CHR ''/'') of
               Inl e \<Rightarrow> Inl e
             | Inr True \<Rightarrow>
                 (case skip_line_comment st of
                    Inl e \<Rightarrow> Inl e
                  | Inr st1 \<Rightarrow> skip_spaces st1)
             | Inr False \<Rightarrow>
                 (case starts2 (inp st) (CHR ''/'') (CHR ''*'') of
                    Inl e \<Rightarrow> Inl e
                  | Inr True \<Rightarrow>
                      (case skip_block_comment st of
                         Inl e \<Rightarrow> Inl e
                       | Inr st1 \<Rightarrow> skip_spaces st1)
                  | Inr False \<Rightarrow> Inr st)))"
  by pat_completeness auto
termination
proof (relation "measure (\<lambda>st. length (inp st))")
  show "wf (measure (\<lambda>st. length (inp st)))" by simp
next
  fix st :: lexer and c cs x st1
  assume "inp st = c # cs"
  then show "(st1\<lparr>inp := cs\<rparr>, st) \<in> measure (\<lambda>st. length (inp st))" by simp
next
  fix st :: lexer and c cs b st1
  assume "skip_line_comment st = Inr st1"
  then have "length (inp st1) < length (drop 2 (inp st))"
    unfolding skip_line_comment_def by (rule skip_line_comment_loop_shorter)
  then show "(st1, st) \<in> measure (\<lambda>st. length (inp st))" by simp
next
  fix st :: lexer and c cs b st1
  assume "skip_block_comment st = Inr st1"
  then have "length (inp st1) < length (drop 2 (inp st))"
    unfolding skip_block_comment_def by (rule skip_block_comment_loop_shorter)
  then show "(st1, st) \<in> measure (\<lambda>st. length (inp st))" by simp
qed

declare skip_spaces.simps [simp del]

subsection \<open>Token constructors\<close>

definition init_basic_tok :: "lexer \<Rightarrow> tok_kind \<Rightarrow> tok" where
  "init_basic_tok st k = \<lparr>kind = k, tok_lineno = lineno st, u = U_none\<rparr>"

definition init_char_lit_tok :: "lexer \<Rightarrow> 32 word \<Rightarrow> tok" where
  "init_char_lit_tok st c = \<lparr>kind = CHAR_LIT, tok_lineno = lineno st, u = U_char_lit c\<rparr>"

text \<open>
  \<open>strcpy\<close> copies a C string: the bytes before the first NUL of the array.
\<close>

definition c_str :: "string \<Rightarrow> string" where
  "c_str text = takeWhile (\<lambda>c. c \<noteq> NUL) text"

definition init_string_lit_tok :: "lexer \<Rightarrow> string \<Rightarrow> nat \<Rightarrow> tok" where
  "init_string_lit_tok st val len =
     \<lparr>kind = STRING_LIT, tok_lineno = lineno st, u = U_string_lit (c_str val) len\<rparr>"

definition init_ident_tok :: "lexer \<Rightarrow> string \<Rightarrow> tok" where
  "init_ident_tok st ident = \<lparr>kind = IDENT, tok_lineno = lineno st, u = U_ident (c_str ident)\<rparr>"

definition init_float_lit_tok :: "lexer \<Rightarrow> string \<Rightarrow> tok" where
  "init_float_lit_tok st val = \<lparr>kind = FLOAT_LIT, tok_lineno = lineno st, u = U_float_lit val\<rparr>"

definition init_int_lit_tok :: "lexer \<Rightarrow> 64 word \<Rightarrow> tok" where
  "init_int_lit_tok st val = \<lparr>kind = INT_LIT, tok_lineno = lineno st, u = U_int_lit val\<rparr>"

subsection \<open>String literals\<close>

text \<open>
  The \<open>do ... while (*inp != '"')\<close> loop of \<open>lex_string_lit\<close>: the arguments are \<open>inp\<close>,
  the bytes written to \<open>text\<close> so far and \<open>len\<close>. The body copies one byte before the
  loop condition looks at the next one, and no test for the end of the input is made.
\<close>

fun lex_string_lit_loop ::
  "nat \<Rightarrow> nat \<Rightarrow> string \<Rightarrow> string \<Rightarrow> nat \<Rightarrow> failure + (string \<times> string \<times> nat)" where
  "lex_string_lit_loop mx ln [] text len =
     (if len = mx then Inl (Fatal ln StringLitTooLong) else Inl OutOfBounds)"
| "lex_string_lit_loop mx ln (c # cs) text len =
     (if len = mx then Inl (Fatal ln StringLitTooLong)
      else (case cs of
              [] \<Rightarrow> Inl OutOfBounds
            | d # _ \<Rightarrow>
                if d = CHR 0x22 then Inr (cs, text @ [c], len + 1)
                else lex_string_lit_loop mx ln cs (text @ [c]) (len + 1)))"

definition lex_string_lit :: "lex_env \<Rightarrow> lexer \<Rightarrow> failure + (tok \<times> lexer)" where
  "lex_string_lit E st =
     (case lex_string_lit_loop (MAX_STRING_SIZE E) (lineno st) (drop 1 (inp st)) [] 0 of
        Inl e \<Rightarrow> Inl e
      | Inr (rest, text, len) \<Rightarrow>
          if is_valid_utf8 E (c_str text)
          then Inr (init_string_lit_tok st text len, st\<lparr>inp := drop 1 rest\<rparr>)
          else Inl (Fatal (lineno st) InvalidStringLit))"

subsection \<open>Identifiers and keywords\<close>

text \<open>
  The hash table \<open>keywords\<close> of \<open>lookup_keyword\<close>, as the list of its entries (the
  table \<open>keywords\<close> is named \<open>keywords_tbl\<close> here).
\<close>

definition keywords_tbl :: "(string \<times> tok_kind) list" where
  "keywords_tbl =
     [(''let'', LET), (''var'', VAR), (''impure'', IMPURE), (''const'', CONST_TOK),
      (''volatile'', VOLATILE), (''typedef'', TYPEDEF), (''true'', TRUE), (''false'', FALSE),
      (''if'', IF), (''then'', THEN), (''else'', ELSE), (''do'', DO), (''while'', WHILE),
      (''for'', FOR), (''switch'', SWITCH), (''break'', BREAK), (''continue'', CONTINUE),
      (''defer'', DEFER), (''return'', RETURN),
      (''U8'', U8), (''U16'', U16), (''U32'', U32), (''U64'', U64),
      (''I8'', I8), (''I16'', I16), (''I32'', I32), (''I64'', I64),
      (''F32'', F32), (''F64'', F64), (''bool'', BOOL), (''void'', VOID), (''char'', CHAR_TOK),
      (''_'', UNDERSCORE)]"

definition lookup_keyword :: "string \<Rightarrow> tok_kind" where
  "lookup_keyword keyword = (case map_of keywords_tbl keyword of None \<Rightarrow> INVALID_TOK | Some k \<Rightarrow> k)"

definition is_ident_head :: "char \<Rightarrow> bool" where
  "is_ident_head c = (c = CHR ''_'' \<or> isalpha c)"

definition is_ident_tail :: "char \<Rightarrow> bool" where
  "is_ident_tail c = (c = CHR ''_'' \<or> isalnum c)"

fun lex_ident_loop :: "nat \<Rightarrow> nat \<Rightarrow> string \<Rightarrow> string \<Rightarrow> failure + (string \<times> string)" where
  "lex_ident_loop mx ln [] ident = Inl OutOfBounds"
| "lex_ident_loop mx ln (c # cs) ident =
     (if is_ident_tail c then
        (if length ident = mx then Inl (Fatal ln IdentTooLong)
         else lex_ident_loop mx ln cs (ident @ [c]))
      else Inr (c # cs, ident))"

definition lex_ident :: "lex_env \<Rightarrow> lexer \<Rightarrow> failure + (tok \<times> lexer)" where
  "lex_ident E st =
     (case lex_ident_loop (MAX_IDENT_SIZE E) (lineno st) (inp st) [] of
        Inl e \<Rightarrow> Inl e
      | Inr (rest, ident) \<Rightarrow>
          (let tok_kind = lookup_keyword ident in
           if tok_kind = INVALID_TOK then Inr (init_ident_tok st ident, st\<lparr>inp := rest\<rparr>)
           else Inr (init_basic_tok st tok_kind, st\<lparr>inp := rest\<rparr>)))"

subsection \<open>Numeric literals\<close>

definition is_bin_digit :: "char \<Rightarrow> bool" where
  "is_bin_digit c = (c = CHR ''0'' \<or> c = CHR ''1'')"

definition is_oct_digit :: "char \<Rightarrow> bool" where
  "is_oct_digit c = IN_RANGE c (CHR ''0'') (CHR ''7'')"

definition is_dec_digit :: "char \<Rightarrow> bool" where
  "is_dec_digit c = isdigit c"

definition is_hex_digit :: "char \<Rightarrow> bool" where
  "is_hex_digit c = (is_dec_digit c \<or> IN_RANGE c (CHR ''A'') (CHR ''F''))"

definition get_is_valid_digit_func :: "nat \<Rightarrow> failure + (char \<Rightarrow> bool)" where
  "get_is_valid_digit_func base =
     (if base = 2 then Inr is_bin_digit
      else if base = 8 then Inr is_oct_digit
      else if base = 10 then Inr is_dec_digit
      else if base = 16 then Inr is_hex_digit
      else Inl InternalError)"

text \<open>
  \<open>strtoull\<close> of the C library, for a text without white space, sign or prefix (the
  only texts \<open>lex_num_lit_with_base\<close> passes hold digits accepted for the base): the
  digits it accepts are the characters whose value is below the base, letters of
  either case counting from ten; it converts the longest run of them at the start
  of the text and reports \<open>ERANGE\<close> with \<open>ULLONG_MAX\<close> when the value does not fit.
  The second component says whether \<open>errno\<close> is \<open>ERANGE\<close> after the call: the lexer
  stops at the first range error, so \<open>errno\<close> is never \<open>ERANGE\<close> before one.
\<close>

definition ULLONG_MAX :: nat where "ULLONG_MAX = 2 ^ 64 - 1"
definition UINT64_MAX :: nat where "UINT64_MAX = 2 ^ 64 - 1"
definition UINT32_MAX :: nat where "UINT32_MAX = 2 ^ 32 - 1"

definition digit_value :: "char \<Rightarrow> nat" where
  "digit_value c =
     (if IN_RANGE c (CHR ''0'') (CHR ''9'') then of_char c - 48
      else if IN_RANGE c (CHR ''A'') (CHR ''Z'') then of_char c - 55
      else if IN_RANGE c (CHR ''a'') (CHR ''z'') then of_char c - 87
      else 36)"

definition strtoull :: "string \<Rightarrow> nat \<Rightarrow> nat \<times> bool" where
  "strtoull text base =
     (let v = foldl (\<lambda>acc c. acc * base + digit_value c) 0
                (takeWhile (\<lambda>c. digit_value c < base) text)
      in if ULLONG_MAX < v then (ULLONG_MAX, True) else (v, False))"

text \<open>
  The scanning loop of \<open>lex_num_lit_with_base\<close>; \<open>i\<close> is the length of \<open>num_text\<close>.
\<close>

fun num_lit_loop ::
  "(char \<Rightarrow> bool) \<Rightarrow> nat \<Rightarrow> string \<Rightarrow> string \<Rightarrow> bool \<Rightarrow> failure + (string \<times> string \<times> bool)" where
  "num_lit_loop is_valid_digit ln [] num_text found_radix_point = Inl OutOfBounds"
| "num_lit_loop is_valid_digit ln (c # cs) num_text found_radix_point =
     (if is_valid_digit c \<or> c = CHR ''.'' then
        (if c = CHR ''.'' \<and> found_radix_point then Inl (Fatal ln MultipleRadixPoints)
         else if length (num_text @ [c]) = MAX_NUM_CHARS + 1 then Inl (Fatal ln NumTooManyChars)
         else num_lit_loop is_valid_digit ln cs (num_text @ [c])
                (found_radix_point \<or> c = CHR ''.''))
      else Inr (c # cs, num_text, found_radix_point))"

definition lex_num_lit_with_base :: "lex_env \<Rightarrow> lexer \<Rightarrow> nat \<Rightarrow> failure + (tok \<times> lexer)" where
  "lex_num_lit_with_base E st base =
     (case get_is_valid_digit_func base of
        Inl e \<Rightarrow> Inl e
      | Inr is_valid_digit \<Rightarrow>
     (case num_lit_loop is_valid_digit (lineno st) (inp st) [] False of
        Inl e \<Rightarrow> Inl e
      | Inr (rest, num_text, found_radix_point) \<Rightarrow>
          if num_text = [] then Inl (Fatal (lineno st) NumNoDigits)
          else if found_radix_point then
            (if hd num_text = CHR ''.'' then Inl (Fatal (lineno st) RadixPointAtBeginning)
             else if last num_text = CHR ''.'' then Inl (Fatal (lineno st) RadixPointAtEnd)
             else if base \<noteq> 10 then Inl (Fatal (lineno st) FloatNotBase10)
             else if strtod_ERANGE E num_text then Inl (Fatal (lineno st) FloatTooLarge)
             else Inr (init_float_lit_tok st num_text, st\<lparr>inp := rest\<rparr>))
          else
            (case strtoull num_text base of
               (inum, erange) \<Rightarrow>
                 if erange \<or> UINT64_MAX < inum then Inl (Fatal (lineno st) IntTooLarge)
                 else Inr (init_int_lit_tok st (of_nat inum), st\<lparr>inp := rest\<rparr>))))"

text \<open>
  \<open>lex_num_lit\<close> is entered at a digit. After a leading \<open>0\<close> the switch looks at the
  next byte; for \<open>.\<close> the pointer steps back to the \<open>0\<close>.
\<close>

definition lex_num_lit :: "lex_env \<Rightarrow> lexer \<Rightarrow> failure + (tok \<times> lexer)" where
  "lex_num_lit E st =
     (case inp st of
        [] \<Rightarrow> Inl OutOfBounds
      | c # cs \<Rightarrow>
          if c = CHR ''0'' then
            (case cs of
               [] \<Rightarrow> Inl OutOfBounds
             | d # ds \<Rightarrow>
                 if d = CHR ''b'' then lex_num_lit_with_base E (st\<lparr>inp := ds\<rparr>) 2
                 else if d = CHR ''o'' then lex_num_lit_with_base E (st\<lparr>inp := ds\<rparr>) 8
                 else if d = CHR ''x'' then lex_num_lit_with_base E (st\<lparr>inp := ds\<rparr>) 16
                 else if d = CHR ''.'' then lex_num_lit_with_base E st 10
                 else if is_dec_digit d then Inl (Fatal (lineno st) LeadingZero)
                 else Inr (init_int_lit_tok st 0, st\<lparr>inp := cs\<rparr>))
          else lex_num_lit_with_base E st 10)"

subsection \<open>Character literals\<close>

definition lex_char_lit_close :: "lexer \<Rightarrow> 32 word \<Rightarrow> string \<Rightarrow> failure + (tok \<times> lexer)" where
  "lex_char_lit_close st c s =
     (case s of
        [] \<Rightarrow> Inl OutOfBounds
      | d # rest \<Rightarrow>
          if d = CHR 0x27 then Inr (init_char_lit_tok st c, st\<lparr>inp := rest\<rparr>)
          else Inl (Fatal (lineno st) InvalidCharLit))"

definition lex_char_lit :: "lex_env \<Rightarrow> lexer \<Rightarrow> failure + (tok \<times> lexer)" where
  "lex_char_lit E st =
     (let s = drop 1 (inp st) in
      case starts2 s (CHR ''U'') (CHR ''+'') of
        Inl e \<Rightarrow> Inl e
      | Inr True \<Rightarrow>
          (case lex_num_lit_with_base E (st\<lparr>inp := drop 2 s\<rparr>) 16 of
             Inl e \<Rightarrow> Inl e
           | Inr (num_tok, st1) \<Rightarrow>
               (case u num_tok of
                  U_int_lit num \<Rightarrow>
                    if UINT32_MAX < unat num \<or> \<not> is_valid_code_point E (unat num)
                    then Inl (Fatal (lineno st) InvalidCharLit)
                    else lex_char_lit_close st (ucast num) (inp st1)
                | _ \<Rightarrow> Inl (Fatal (lineno st) InvalidCharLit)))
      | Inr False \<Rightarrow>
          (case str_to_code_point E s of
             (c, n) \<Rightarrow> lex_char_lit_close st c (drop n s)))"

subsection \<open>Operators\<close>

text \<open>
  \<open>strchr\<close> also finds the terminating NUL of the string it searches, so
  \<open>is_op_char\<close> holds of NUL.
\<close>

definition is_op_char :: "char \<Rightarrow> bool" where
  "is_op_char c = (c \<in> set ''+-*/%<>=!&|^~.:;,[](){}'' \<or> c = NUL)"

text \<open>
  \<open>lex_op_0\<close>, \<open>lex_op_1\<close> and \<open>lex_op_2\<close> are \<open>lex_op_0__\<close>, \<open>lex_op_1__\<close> and \<open>lex_op_2__\<close>
  of the source: the token of the first byte alone, or extended by one of one or two
  given second bytes.
\<close>

definition lex_op_0 :: "lexer \<Rightarrow> tok_kind \<Rightarrow> failure + (tok \<times> lexer)" where
  "lex_op_0 st k = Inr (init_basic_tok st k, st\<lparr>inp := drop 1 (inp st)\<rparr>)"

definition lex_op_1 ::
  "lexer \<Rightarrow> tok_kind \<Rightarrow> char \<Rightarrow> tok_kind \<Rightarrow> failure + (tok \<times> lexer)" where
  "lex_op_1 st k c1 kind1 =
     (case drop 1 (inp st) of
        [] \<Rightarrow> Inl OutOfBounds
      | d # rest \<Rightarrow>
          if d = c1 then Inr (init_basic_tok st kind1, st\<lparr>inp := rest\<rparr>)
          else Inr (init_basic_tok st k, st\<lparr>inp := d # rest\<rparr>))"

definition lex_op_2 ::
  "lexer \<Rightarrow> tok_kind \<Rightarrow> char \<Rightarrow> tok_kind \<Rightarrow> char \<Rightarrow> tok_kind \<Rightarrow> failure + (tok \<times> lexer)" where
  "lex_op_2 st k c1 kind1 c2 kind2 =
     (case drop 1 (inp st) of
        [] \<Rightarrow> Inl OutOfBounds
      | d # rest \<Rightarrow>
          if d = c1 then Inr (init_basic_tok st kind1, st\<lparr>inp := rest\<rparr>)
          else if d = c2 then Inr (init_basic_tok st kind2, st\<lparr>inp := rest\<rparr>)
          else Inr (init_basic_tok st k, st\<lparr>inp := d # rest\<rparr>))"

definition lex_op :: "lexer \<Rightarrow> failure + (tok \<times> lexer)" where
  "lex_op st =
     (case inp st of
        [] \<Rightarrow> Inl OutOfBounds
      | c # _ \<Rightarrow>
          if c = CHR ''+'' then lex_op_2 st PLUS (CHR ''+'') PLUS_PLUS (CHR ''='') PLUS_EQ
          else if c = CHR ''-'' then lex_op_2 st MINUS (CHR ''-'') MINUS_MINUS (CHR ''='') MINUS_EQ
          else if c = CHR ''*'' then lex_op_1 st STAR (CHR ''='') STAR_EQ
          else if c = CHR ''/'' then lex_op_1 st SLASH (CHR ''='') SLASH_EQ
          else if c = CHR ''%'' then lex_op_1 st PERCENT (CHR ''='') PERCENT_EQ
          else if c = CHR ''<'' then lex_op_2 st LT (CHR ''<'') LT_LT (CHR ''='') LT_EQ
          else if c = CHR ''>'' then lex_op_2 st GT (CHR ''>'') GT_GT (CHR ''='') GT_EQ
          else if c = CHR ''='' then lex_op_1 st EQ (CHR ''='') EQ_EQ
          else if c = CHR ''!'' then lex_op_1 st BANG (CHR ''='') BANG_EQ
          else if c = CHR ''&'' then lex_op_2 st AMP (CHR ''&'') AMP_AMP (CHR ''='') AMP_EQ
          else if c = CHR ''|'' then lex_op_2 st PIPE (CHR ''|'') PIPE_PIPE (CHR ''='') PIPE_EQ
          else if c = CHR ''^'' then lex_op_1 st CARET (CHR ''='') CARET_EQ
          else if c = CHR ''~'' then lex_op_0 st TILDE
          else if c = CHR ''.'' then lex_op_0 st DOT
          else if c = CHR '':'' then lex_op_0 st COLON
          else if c = CHR '';'' then lex_op_0 st SEMICOLON
          else if c = CHR '','' then lex_op_0 st COMMA
          else if c = CHR ''['' then lex_op_0 st OPEN_BRACKET
          else if c = CHR '']'' then lex_op_0 st CLOSE_BRACKET
          else if c = CHR ''('' then lex_op_0 st OPEN_PAREN
          else if c = CHR '')'' then lex_op_0 st CLOSE_PAREN
          else if c = CHR ''{'' then lex_op_0 st OPEN_BRACE
          else if c = CHR ''}'' then lex_op_0 st CLOSE_BRACE
          else Inl InternalError)"

subsection \<open>The token-to-description table\<close>

primrec tok_to_str :: "tok_kind \<Rightarrow> string option" where
  "tok_to_str INVALID_TOK = None"
| "tok_to_str LET = Some ''`let`''"
| "tok_to_str VAR = Some ''`var`''"
| "tok_to_str IMPURE = Some ''`impure`''"
| "tok_to_str CONST_TOK = Some ''`const`''"
| "tok_to_str VOLATILE = Some ''`volatile`''"
| "tok_to_str IDENT = Some ''an identifier''"
| "tok_to_str TYPEDEF = Some ''`typedef`''"
| "tok_to_str TRUE = Some ''`true`''"
| "tok_to_str FALSE = Some ''`false`''"
| "tok_to_str INT_LIT = Some ''an integer literal''"
| "tok_to_str FLOAT_LIT = Some ''a float literal''"
| "tok_to_str CHAR_LIT = Some ''a character literal''"
| "tok_to_str STRING_LIT = Some ''a string literal''"
| "tok_to_str PLUS_PLUS = Some ''`++`''"
| "tok_to_str MINUS_MINUS = Some ''`--`''"
| "tok_to_str PLUS = Some ''`+`''"
| "tok_to_str MINUS = Some ''`-`''"
| "tok_to_str STAR = Some ''`*`''"
| "tok_to_str SLASH = Some ''`/`''"
| "tok_to_str PERCENT = Some ''`%`''"
| "tok_to_str LT = Some ''`<`''"
| "tok_to_str GT = Some ''`>`''"
| "tok_to_str LT_EQ = Some ''`<=`''"
| "tok_to_str GT_EQ = Some ''`>=`''"
| "tok_to_str EQ_EQ = Some ''`==`''"
| "tok_to_str BANG_EQ = Some ''`!=`''"
| "tok_to_str AMP = Some ''`&`''"
| "tok_to_str PIPE = Some ''`|`''"
| "tok_to_str CARET = Some ''`^`''"
| "tok_to_str TILDE = Some ''`~`''"
| "tok_to_str LT_LT = Some ''`<<`''"
| "tok_to_str GT_GT = Some ''`>>`''"
| "tok_to_str AMP_AMP = Some ''`&&`''"
| "tok_to_str PIPE_PIPE = Some ''`||`''"
| "tok_to_str BANG = Some ''`!`''"
| "tok_to_str EQ = Some ''`=`''"
| "tok_to_str PLUS_EQ = Some ''`+=`''"
| "tok_to_str MINUS_EQ = Some ''`-=`''"
| "tok_to_str STAR_EQ = Some ''`*=`''"
| "tok_to_str SLASH_EQ = Some ''`/=`''"
| "tok_to_str PERCENT_EQ = Some ''`%=`''"
| "tok_to_str AMP_EQ = Some ''`&=`''"
| "tok_to_str PIPE_EQ = Some ''`|=`''"
| "tok_to_str CARET_EQ = Some ''`^=`''"
| "tok_to_str LT_LT_EQ = Some ''`<<=`''"
| "tok_to_str GT_GT_EQ = Some ''`>>=`''"
| "tok_to_str IF = Some ''`if`''"
| "tok_to_str THEN = Some ''`then`''"
| "tok_to_str ELSE = Some ''`else`''"
| "tok_to_str DO = Some ''`do`''"
| "tok_to_str WHILE = Some ''`while`''"
| "tok_to_str FOR = Some ''`for`''"
| "tok_to_str SWITCH = Some ''`switch`''"
| "tok_to_str BREAK = Some ''`break`''"
| "tok_to_str CONTINUE = Some ''`continue`''"
| "tok_to_str DEFER = Some ''`defer`''"
| "tok_to_str RETURN = Some ''`return`''"
| "tok_to_str U8 = Some ''`U8`''"
| "tok_to_str U16 = Some ''`U16`''"
| "tok_to_str U32 = Some ''`U32`''"
| "tok_to_str U64 = Some ''`U64`''"
| "tok_to_str I8 = Some ''`I8`''"
| "tok_to_str I16 = Some ''`I16`''"
| "tok_to_str I32 = Some ''`I32`''"
| "tok_to_str I64 = Some ''`I64`''"
| "tok_to_str F32 = Some ''`F32`''"
| "tok_to_str F64 = Some ''`F64`''"
| "tok_to_str BOOL = Some ''`bool`''"
| "tok_to_str VOID = Some ''`void`''"
| "tok_to_str CHAR_TOK = Some ''`char`''"
| "tok_to_str DOT = Some ''`.`''"
| "tok_to_str COLON = Some ''`:`''"
| "tok_to_str SEMICOLON = Some ''`;`''"
| "tok_to_str COMMA = Some ''`,`''"
| "tok_to_str ARROW = Some ''`->`''"
| "tok_to_str BACK_ARROW = Some ''`<-`''"
| "tok_to_str BIG_ARROW = Some ''`=>`''"
| "tok_to_str BACKSLASH = Some [CHR 0x60, CHR 0x5C, CHR 0x60]"
| "tok_to_str UNDERSCORE = Some ''`_`''"
| "tok_to_str OPEN_BRACKET = Some ''`[`''"
| "tok_to_str CLOSE_BRACKET = Some ''`]`''"
| "tok_to_str OPEN_PAREN = Some ''`(`''"
| "tok_to_str CLOSE_PAREN = Some ''`)`''"
| "tok_to_str OPEN_BRACE = Some ''`{`''"
| "tok_to_str CLOSE_BRACE = Some ''`}`''"
| "tok_to_str TEOF = Some ''end of file''"

subsection \<open>The scanner\<close>

definition lex :: "lex_env \<Rightarrow> lexer \<Rightarrow> failure + (tok \<times> lexer)" where
  "lex E st =
     (case skip_spaces st of
        Inl e \<Rightarrow> Inl e
      | Inr st1 \<Rightarrow>
          (case inp st1 of
             [] \<Rightarrow> Inl OutOfBounds
           | c # _ \<Rightarrow>
               if c = CHR 0x27 then lex_char_lit E st1
               else if c = CHR 0x22 then lex_string_lit E st1
               else if c = NUL then Inr (init_basic_tok st1 TEOF, st1)
               else if is_op_char c then lex_op st1
               else if is_ident_head c then lex_ident E st1
               else if isdigit c then lex_num_lit E st1
               else Inl (Fatal (lineno st1) (InvalidToken c))))"

subsection \<open>Definitions used to state the properties of the lexer\<close>

abbreviation DQUOTE :: char where "DQUOTE \<equiv> CHR 0x22"

text \<open>
  The digits a literal of base \<open>b\<close> is made of (the predicate
  \<open>get_is_valid_digit_func\<close> selects), its prefix, and the value of a digit string read
  in base \<open>b\<close>, most significant digit first.
\<close>

definition valid_digit :: "nat \<Rightarrow> char \<Rightarrow> bool" where
  "valid_digit b c = (case get_is_valid_digit_func b of Inl e \<Rightarrow> False | Inr f \<Rightarrow> f c)"

definition lit_prefix :: "nat \<Rightarrow> string" where
  "lit_prefix b = (if b = 2 then ''0b'' else if b = 8 then ''0o'' else if b = 16 then ''0x'' else [])"

definition positional_value :: "nat \<Rightarrow> string \<Rightarrow> nat" where
  "positional_value b ds = (\<Sum>i<length ds. digit_value (ds ! i) * b ^ (length ds - 1 - i))"

text \<open>
  An instance of the parts that are not among the sources, for closed evaluations on
  ASCII inputs: limits of 1024 and 64 bytes, a validator that accepts ASCII text, a
  decoder of one ASCII byte, the Unicode scalar values, and no range error.
\<close>

definition sample_env :: lex_env where
  "sample_env =
     \<lparr>MAX_STRING_SIZE = 1024, MAX_IDENT_SIZE = 64,
      is_valid_utf8 = list_all (\<lambda>c. (of_char c :: nat) < 128),
      str_to_code_point = (\<lambda>s. (case s of [] \<Rightarrow> 0 | c # cs \<Rightarrow> of_char c, 1)),
      is_valid_code_point = (\<lambda>n. n < 55296 \<or> (57344 \<le> n \<and> n \<le> 1114111)),
      strtod_ERANGE = (\<lambda>s. False)\<rparr>"

text \<open>\<open>lex_repeat E k\<close> calls \<open>lex\<close> \<open>k\<close> times in a row and collects the tokens.\<close>

fun lex_repeat :: "lex_env \<Rightarrow> nat \<Rightarrow> lexer \<Rightarrow> failure + (tok list \<times> lexer)" where
  "lex_repeat E 0 st = Inr ([], st)"
| "lex_repeat E (Suc k) st =
     (case lex E st of
        Inl e \<Rightarrow> Inl e
      | Inr (t, st1) \<Rightarrow>
          (case lex_repeat E k st1 of
             Inl e \<Rightarrow> Inl e
           | Inr (ts, st2) \<Rightarrow> Inr (t # ts, st2)))"

text \<open>
  The printed form of a token kind: its entry in the table without the backquotes
  around it.
\<close>

definition printed_form :: "tok_kind \<Rightarrow> string" where
  "printed_form k = (case tok_to_str k of None \<Rightarrow> [] | Some s \<Rightarrow> filter (\<lambda>c. c \<noteq> CHR 0x60) s)"

text \<open>The operator and delimiter kinds for which \<open>lex_op\<close> has a case.\<close>

definition lexed_operators :: "tok_kind list" where
  "lexed_operators =
     [PLUS_PLUS, MINUS_MINUS, PLUS, MINUS, STAR, SLASH, PERCENT, LT, GT, LT_EQ, GT_EQ,
      EQ_EQ, BANG_EQ, AMP, PIPE, CARET, TILDE, LT_LT, GT_GT, AMP_AMP, PIPE_PIPE, BANG, EQ,
      PLUS_EQ, MINUS_EQ, STAR_EQ, SLASH_EQ, PERCENT_EQ, AMP_EQ, PIPE_EQ, CARET_EQ,
      DOT, COLON, SEMICOLON, COMMA,
      OPEN_BRACKET, CLOSE_BRACKET, OPEN_PAREN, CLOSE_PAREN, OPEN_BRACE, CLOSE_BRACE]"

section \<open>The code generator (src/unnamed/part_002)\<close>

subsection \<open>Source types and their lowering\<close>

text \<open>
  \<open>struct type\<close> is declared in ast.h, which is not among the sources; the kinds and the
  members of its union are those \<open>get_llvm_type\<close> and \<open>emit_global_decl\<close> read: an array
  has an element type \<open>l\<close> and a length \<open>len\<close>, a pointer a target \<open>l\<close>, a tuple its
  \<open>types\<close>, a function its \<open>params\<close> and \<open>ret\<close>. An alias and a type parameter carry a name.
\<close>

datatype type =
    UNSIZED_INT_TYPE
  | U8_TYPE | U16_TYPE | U32_TYPE | U64_TYPE
  | I8_TYPE | I16_TYPE | I32_TYPE | I64_TYPE
  | F32_TYPE | F64_TYPE
  | BOOL_TYPE | VOID_TYPE | CHAR_TYPE
  | ALIAS_TYPE string
  | PARAM_TYPE string
  | ARRAY_TYPE type nat
  | POINTER_TYPE type
  | TUPLE_TYPE "type list"
  | FUNC_TYPE "type list" type

text \<open>
  The types of LLVM's C interface, by the function that makes them. An array of
  element types handed to LLVM comes from \<open>xmalloc\<close>: a slot holds \<open>Some t\<close> once the code
  has written \<open>t\<close> to it and \<open>None\<close> while it holds what \<open>xmalloc\<close> returned. The last
  argument of \<open>LLVMStructType\<close> is \<open>Packed\<close> and that of \<open>LLVMFunctionType\<close> is \<open>IsVarArg\<close>;
  the element counts are the lengths of the lists.
\<close>

datatype llvm_type =
    LLVMInt1Type | LLVMInt8Type | LLVMInt16Type | LLVMInt32Type | LLVMInt64Type
  | LLVMFloatType | LLVMDoubleType | LLVMVoidType
  | LLVMPointerType llvm_type nat
  | LLVMArrayType llvm_type nat
  | LLVMStructType "llvm_type option list" bool
  | LLVMFunctionType llvm_type "llvm_type option list" bool

text \<open>
  How a run of the code generator ends early: \<open>internal_error()\<close>, a read of a union
  member the node does not hold, or an LLVM build call on a NULL builder.
\<close>

datatype emit_failure = EmitInternalError | WrongUnionMember | NullBuilder | NoInsertBlock

definition get_fat_ptr_type :: "llvm_type \<Rightarrow> llvm_type" where
  "get_fat_ptr_type item_type =
     LLVMStructType [Some LLVMInt16Type, Some (LLVMPointerType item_type 0)] False"

text \<open>The results of a loop, in order, up to the first failure.\<close>

fun collect :: "('e + 'a) list \<Rightarrow> 'e + 'a list" where
  "collect [] = Inr []"
| "collect (Inl e # rs) = Inl e"
| "collect (Inr x # rs) = (case collect rs of Inl e \<Rightarrow> Inl e | Inr xs \<Rightarrow> Inr (x # xs))"

text \<open>
  \<open>ALIAS_TYPE\<close> and \<open>PARAM_TYPE\<close> have no statement of their own and fall through to the
  array case, which reads \<open>u.array\<close> of a node that is no array. The tuple case fills
  every slot of its array; the function case allocates the array of parameter types
  and passes it on without writing to it.
\<close>

fun get_llvm_type :: "type \<Rightarrow> emit_failure + llvm_type" where
  "get_llvm_type UNSIZED_INT_TYPE = Inr LLVMInt32Type"
| "get_llvm_type U8_TYPE = Inr LLVMInt8Type"
| "get_llvm_type I8_TYPE = Inr LLVMInt8Type"
| "get_llvm_type U16_TYPE = Inr LLVMInt16Type"
| "get_llvm_type I16_TYPE = Inr LLVMInt16Type"
| "get_llvm_type U32_TYPE = Inr LLVMInt32Type"
| "get_llvm_type I32_TYPE = Inr LLVMInt32Type"
| "get_llvm_type CHAR_TYPE = Inr LLVMInt32Type"
| "get_llvm_type U64_TYPE = Inr LLVMInt64Type"
| "get_llvm_type I64_TYPE = Inr LLVMInt64Type"
| "get_llvm_type F32_TYPE = Inr LLVMFloatType"
| "get_llvm_type F64_TYPE = Inr LLVMDoubleType"
| "get_llvm_type BOOL_TYPE = Inr LLVMInt1Type"
| "get_llvm_type VOID_TYPE = Inr LLVMVoidType"
| "get_llvm_type (ALIAS_TYPE a) = Inl WrongUnionMember"
| "get_llvm_type (PARAM_TYPE a) = Inl WrongUnionMember"
| "get_llvm_type (ARRAY_TYPE l len) =
     (case get_llvm_type l of
        Inl e \<Rightarrow> Inl e
      | Inr item_type \<Rightarrow>
          if len = 0 then Inr (get_fat_ptr_type item_type)
          else Inr (LLVMArrayType item_type len))"
| "get_llvm_type (POINTER_TYPE l) =
     (case get_llvm_type l of
        Inl e \<Rightarrow> Inl e
      | Inr t \<Rightarrow> Inr (LLVMPointerType t 0))"
| "get_llvm_type (TUPLE_TYPE types) =
     (case collect (map get_llvm_type types) of
        Inl e \<Rightarrow> Inl e
      | Inr llvm_types \<Rightarrow> Inr (LLVMStructType (map Some llvm_types) False))"
| "get_llvm_type (FUNC_TYPE params ret) =
     (case get_llvm_type ret of
        Inl e \<Rightarrow> Inl e
      | Inr t \<Rightarrow> Inr (LLVMFunctionType t (replicate (length params) None) False))"

subsection \<open>The syntax tree\<close>

text \<open>
  \<open>struct expr\<close>, \<open>struct stmt\<close> and \<open>struct decl\<close> are declared in ast.h as well. Every
  expression carries its resolved \<open>type\<close>; the payloads are the union members the
  emitter reads. The emitter reads nothing of an array literal, an identifier, a
  block, an if-expression, a switch or a tuple, and nothing of a while or for
  statement, so these carry no payload here but the identifier's name. A float
  literal is kept as its text, as in the lexer.
\<close>

datatype unary_op =
    NEG_OP | PRE_INC_OP | POST_INC_OP | PRE_DEC_OP | POST_DEC_OP
  | DEREF_OP | REF_OP | BIT_NOT_OP | LOG_NOT_OP

datatype bin_op =
    ADD_OP | SUB_OP | MUL_OP | DIV_OP | MOD_OP
  | LT_OP | GT_OP | LT_EQ_OP | GT_EQ_OP | EQ_OP | NOT_EQ_OP
  | BIT_AND_OP | LOG_AND_OP | BIT_OR_OP | LOG_OR_OP | BIT_XOR_OP
  | BIT_SHIFT_L_OP | BIT_SHIFT_R_OP
  | ASSIGN_OP | ADD_ASSIGN_OP | SUB_ASSIGN_OP | MUL_ASSIGN_OP | DIV_ASSIGN_OP | MOD_ASSIGN_OP
  | BIT_AND_ASSIGN_OP | BIT_OR_ASSIGN_OP | BIT_XOR_ASSIGN_OP
  | BIT_SHIFT_L_ASSIGN_OP | BIT_SHIFT_R_ASSIGN_OP
  | FIELD_OP

datatype expr =
    BOOL_LIT_EXPR (expr_type: type) bool
  | INT_LIT_EXPR (expr_type: type) "64 word"
  | FLOAT_LIT_EXPR (expr_type: type) string
  | CHAR_LIT_EXPR (expr_type: type) "32 word"
  | STRING_LIT_EXPR (expr_type: type) string nat
  | UNARY_OP_EXPR (expr_type: type) unary_op expr
  | BIN_OP_EXPR (expr_type: type) bin_op expr expr
  | LAMBDA_EXPR (expr_type: type) "string list" expr
  | ARRAY_LIT_EXPR (expr_type: type)
  | IDENT_EXPR (expr_type: type) string
  | BLOCK_EXPR (expr_type: type)
  | IF_EXPR (expr_type: type)
  | SWITCH_EXPR (expr_type: type)
  | TUPLE_EXPR (expr_type: type)

record decl =
  decl_name :: string
  decl_type :: type
  is_const :: bool
  init :: "expr option"

datatype stmt =
    DECL_STMT decl
  | EXPR_STMT expr
  | IF_STMT expr "stmt list" "stmt list"
  | DO_STMT "stmt list" expr
  | WHILE_STMT
  | FOR_STMT

subsection \<open>LLVM values, instructions and the builder\<close>

text \<open>
  LLVM is modelled as a recorder of the calls the emitter makes. A value is what a
  call returned: NULL (what the emitter's stubs return), a constant, a constant
  expression made by an \<open>LLVMConst...\<close> call, or the instruction made by an
  \<open>LLVMBuild...\<close> call, with its operands and its name. A build call appends its
  instruction to the block the builder is positioned at and returns it. What LLVM
  itself does with the operands (folding constants, rejecting a NULL or ill-typed
  operand) is not modelled. Branches name their target blocks by their position in
  the function.
\<close>

datatype LLVMIntPredicate =
    LLVMIntEQ | LLVMIntNE | LLVMIntUGT | LLVMIntUGE | LLVMIntULT | LLVMIntULE
  | LLVMIntSGT | LLVMIntSGE | LLVMIntSLT | LLVMIntSLE

datatype LLVMRealPredicate =
    LLVMRealOEQ | LLVMRealOGT | LLVMRealOGE | LLVMRealOLT | LLVMRealOLE | LLVMRealONE

datatype opcode =
    LLVMNeg | LLVMNot | LLVMLoad | LLVMStore | LLVMAlloca llvm_type
  | LLVMAdd | LLVMFAdd | LLVMSub | LLVMFSub | LLVMMul | LLVMFMul
  | LLVMUDiv | LLVMSDiv | LLVMFDiv | LLVMURem | LLVMSRem | LLVMFRem
  | LLVMAnd | LLVMOr | LLVMXor | LLVMShl | LLVMLShr
  | LLVMICmp LLVMIntPredicate | LLVMFCmp LLVMRealPredicate
  | LLVMBr nat | LLVMCondBr nat nat

datatype llvm_value =
    NULL_VALUE
  | LLVMConstInt llvm_type "64 word" bool
  | LLVMConstReal llvm_type string
  | LLVMConstString string nat bool
  | ConstExpr opcode "llvm_value list"
  | Instr opcode "llvm_value list" string

text \<open>
  The state the emitter works on: the basic blocks of the function under
  construction, in order, each with its name and its instructions; the block the
  builder is positioned at the end of; and the file's symbol table.

  Modelled from the spec: symbol_table.c is not among the sources. The symbol table is
  an explicit stack of scopes, each a mapping from name to value, innermost first;
  \<open>insert_symbol\<close> binds the name in the innermost scope.
\<close>

record gen_state =
  blocks :: "(string \<times> llvm_value list) list"
  insert_block :: nat
  sym_tbl :: "(string \<times> llvm_value) list list"

type_synonym 'a gen = "gen_state \<Rightarrow> emit_failure + ('a \<times> gen_state)"

text \<open>An \<open>LLVMBuilderRef\<close> is NULL (\<open>None\<close>) or the builder of the function.\<close>

type_synonym LLVMBuilderRef = "unit option"

definition ereturn :: "'a \<Rightarrow> 'a gen" where
  "ereturn x s = Inr (x, s)"

definition efail :: "emit_failure \<Rightarrow> 'a gen" where
  "efail e s = Inl e"

definition ebind :: "'a gen \<Rightarrow> ('a \<Rightarrow> 'b gen) \<Rightarrow> 'b gen" where
  "ebind m f s = (case m s of Inl e \<Rightarrow> Inl e | Inr (x, s1) \<Rightarrow> f x s1)"

definition elift :: "emit_failure + 'a \<Rightarrow> 'a gen" where
  "elift r s = (case r of Inl e \<Rightarrow> Inl e | Inr x \<Rightarrow> Inr (x, s))"

definition LLVMBuild :: "LLVMBuilderRef \<Rightarrow> opcode \<Rightarrow> llvm_value list \<Rightarrow> string \<Rightarrow> llvm_value gen" where
  "LLVMBuild builder opc operands name s =
     (case builder of
        None \<Rightarrow> Inl NullBuilder
      | Some b \<Rightarrow>
          if insert_block s < length (blocks s) then
            Inr (Instr opc operands name,
                 s\<lparr>blocks := (blocks s)[insert_block s :=
                      (fst (blocks s ! insert_block s),
                       snd (blocks s ! insert_block s) @ [Instr opc operands name])]\<rparr>)
          else Inl NoInsertBlock)"

definition LLVMAppendBasicBlock :: "string \<Rightarrow> nat gen" where
  "LLVMAppendBasicBlock name s = Inr (length (blocks s), s\<lparr>blocks := blocks s @ [(name, [])]\<rparr>)"

definition LLVMPositionBuilderAtEnd :: "LLVMBuilderRef \<Rightarrow> nat \<Rightarrow> unit gen" where
  "LLVMPositionBuilderAtEnd builder block s =
     (case builder of
        None \<Rightarrow> Inl NullBuilder
      | Some b \<Rightarrow> Inr ((), s\<lparr>insert_block := block\<rparr>))"

definition insert_symbol :: "string \<Rightarrow> llvm_value \<Rightarrow> unit gen" where
  "insert_symbol name val s =
     Inr ((), s\<lparr>sym_tbl := (case sym_tbl s of
                               [] \<Rightarrow> [[(name, val)]]
                             | scope # outer \<Rightarrow> ((name, val) # scope) # outer)\<rparr>)"

subsection \<open>Expressions\<close>

text \<open>
  Modelled from the spec: \<open>is_float_type\<close> and \<open>is_unsigned_int_type\<close> are functions of
  check_semantics.c, which is not among the sources; the float types are the two float
  widths and the unsigned integer types the four sized unsigned integers.
\<close>

definition is_float_type :: "type \<Rightarrow> bool" where
  "is_float_type t = (t = F32_TYPE \<or> t = F64_TYPE)"

definition is_unsigned_int_type :: "type \<Rightarrow> bool" where
  "is_unsigned_int_type t = (t = U8_TYPE \<or> t = U16_TYPE \<or> t = U32_TYPE \<or> t = U64_TYPE)"

text \<open>
  \<open>emit_add\<close> to \<open>emit_ne\<close>: with a NULL builder the constant forms (\<open>LLVMConstFAdd\<close>,
  \<open>LLVMConstAdd\<close>, ...), otherwise the build calls; the variant follows the type of the
  expression.
\<close>

definition emit_add :: "LLVMBuilderRef \<Rightarrow> llvm_value \<Rightarrow> llvm_value \<Rightarrow> type \<Rightarrow> llvm_value gen" where
  "emit_add builder l r t =
     (let is_const_expr = (builder = None) in
      if is_const_expr then
        (if is_float_type t then ereturn (ConstExpr LLVMFAdd [l, r])
         else ereturn (ConstExpr LLVMAdd [l, r]))
      else
        (if is_float_type t then LLVMBuild builder LLVMFAdd [l, r] ''add''
         else LLVMBuild builder LLVMAdd [l, r] ''add''))"

definition emit_sub :: "LLVMBuilderRef \<Rightarrow> llvm_value \<Rightarrow> llvm_value \<Rightarrow> type \<Rightarrow> llvm_value gen" where
  "emit_sub builder l r t =
     (let is_const_expr = (builder = None) in
      if is_const_expr then
        (if is_float_type t then ereturn (ConstExpr LLVMFSub [l, r])
         else ereturn (ConstExpr LLVMSub [l, r]))
      else
        (if is_float_type t then LLVMBuild builder LLVMFSub [l, r] ''sub''
         else LLVMBuild builder LLVMSub [l, r] ''sub''))"

definition emit_mul :: "LLVMBuilderRef \<Rightarrow> llvm_value \<Rightarrow> llvm_value \<Rightarrow> type \<Rightarrow> llvm_value gen" where
  "emit_mul builder l r t =
     (let is_const_expr = (builder = None) in
      if is_const_expr then
        (if is_float_type t then ereturn (ConstExpr LLVMFMul [l, r])
         else ereturn (ConstExpr LLVMMul [l, r]))
      else
        (if is_float_type t then LLVMBuild builder LLVMFMul [l, r] ''mul''
         else LLVMBuild builder LLVMMul [l, r] ''mul''))"

definition emit_div :: "LLVMBuilderRef \<Rightarrow> llvm_value \<Rightarrow> llvm_value \<Rightarrow> type \<Rightarrow> llvm_value gen" where
  "emit_div builder l r t =
     (let is_const_expr = (builder = None) in
      if is_const_expr then
        (if is_float_type t then ereturn (ConstExpr LLVMFDiv [l, r])
         else if is_unsigned_int_type t then ereturn (ConstExpr LLVMUDiv [l, r])
         else ereturn (ConstExpr LLVMSDiv [l, r]))
      else
        (if is_float_type t then LLVMBuild builder LLVMFDiv [l, r] ''div''
         else if is_unsigned_int_type t then LLVMBuild builder LLVMUDiv [l, r] ''div''
         else LLVMBuild builder LLVMSDiv [l, r] ''div''))"

definition emit_mod :: "LLVMBuilderRef \<Rightarrow> llvm_value \<Rightarrow> llvm_value \<Rightarrow> type \<Rightarrow> llvm_value gen" where
  "emit_mod builder l r t =
     (let is_const_expr = (builder = None) in
      if is_const_expr then
        (if is_float_type t then ereturn (ConstExpr LLVMFRem [l, r])
         else if is_unsigned_int_type t then ereturn (ConstExpr LLVMURem [l, r])
         else ereturn (ConstExpr LLVMSRem [l, r]))
      else
        (if is_float_type t then LLVMBuild builder LLVMFRem [l, r] ''mod''
         else if is_unsigned_int_type t then LLVMBuild builder LLVMURem [l, r] ''mod''
         else LLVMBuild builder LLVMSRem [l, r] ''mod''))"

definition emit_lt :: "LLVMBuilderRef \<Rightarrow> llvm_value \<Rightarrow> llvm_value \<Rightarrow> type \<Rightarrow> llvm_value gen" where
  "emit_lt builder l r t =
     (let is_const_expr = (builder = None) in
      if is_const_expr then
        (if is_float_type t then ereturn (ConstExpr (LLVMFCmp LLVMRealOLT) [l, r])
         else if is_unsigned_int_type t then ereturn (ConstExpr (LLVMICmp LLVMIntULT) [l, r])
         else ereturn (ConstExpr (LLVMICmp LLVMIntSLT) [l, r]))
      else
        (if is_float_type t then LLVMBuild builder (LLVMFCmp LLVMRealOLT) [l, r] ''lt''
         else if is_unsigned_int_type t then LLVMBuild builder (LLVMICmp LLVMIntULT) [l, r] ''lt''
         else LLVMBuild builder (LLVMICmp LLVMIntSLT) [l, r] ''lt''))"

definition emit_gt :: "LLVMBuilderRef \<Rightarrow> llvm_value \<Rightarrow> llvm_value \<Rightarrow> type \<Rightarrow> llvm_value gen" where
  "emit_gt builder l r t =
     (let is_const_expr = (builder = None) in
      if is_const_expr then
        (if is_float_type t then ereturn (ConstExpr (LLVMFCmp LLVMRealOGT) [l, r])
         else if is_unsigned_int_type t then ereturn (ConstExpr (LLVMICmp LLVMIntUGT) [l, r])
         else ereturn (ConstExpr (LLVMICmp LLVMIntSGT) [l, r]))
      else
        (if is_float_type t then LLVMBuild builder (LLVMFCmp LLVMRealOGT) [l, r] ''gt''
         else if is_unsigned_int_type t then LLVMBuild builder (LLVMICmp LLVMIntUGT) [l, r] ''gt''
         else LLVMBuild builder (LLVMICmp LLVMIntSGT) [l, r] ''gt''))"

definition emit_le :: "LLVMBuilderRef \<Rightarrow> llvm_value \<Rightarrow> llvm_value \<Rightarrow> type \<Rightarrow> llvm_value gen" where
  "emit_le builder l r t =
     (let is_const_expr = (builder = None) in
      if is_const_expr then
        (if is_float_type t then ereturn (ConstExpr (LLVMFCmp LLVMRealOLE) [l, r])
         else if is_unsigned_int_type t then ereturn (ConstExpr (LLVMICmp LLVMIntULE) [l, r])
         else ereturn (ConstExpr (LLVMICmp LLVMIntSLE) [l, r]))
      else
        (if is_float_type t then LLVMBuild builder (LLVMFCmp LLVMRealOLE) [l, r] ''le''
         else if is_unsigned_int_type t then LLVMBuild builder (LLVMICmp LLVMIntULE) [l, r] ''le''
         else LLVMBuild builder (LLVMICmp LLVMIntSLE) [l, r] ''le''))"

definition emit_ge :: "LLVMBuilderRef \<Rightarrow> llvm_value \<Rightarrow> llvm_value \<Rightarrow> type \<Rightarrow> llvm_value gen" where
  "emit_ge builder l r t =
     (let is_const_expr = (builder = None) in
      if is_const_expr then
        (if is_float_type t then ereturn (ConstExpr (LLVMFCmp LLVMRealOGE) [l, r])
         else if is_unsigned_int_type t then ereturn (ConstExpr (LLVMICmp LLVMIntUGE) [l, r])
         else ereturn (ConstExpr (LLVMICmp LLVMIntSGE) [l, r]))
      else
        (if is_float_type t then LLVMBuild builder (LLVMFCmp LLVMRealOGE) [l, r] ''ge''
         else if is_unsigned_int_type t then LLVMBuild builder (LLVMICmp LLVMIntUGE) [l, r] ''ge''
         else LLVMBuild builder (LLVMICmp LLVMIntSGE) [l, r] ''ge''))"

definition emit_eq :: "LLVMBuilderRef \<Rightarrow> llvm_value \<Rightarrow> llvm_value \<Rightarrow> type \<Rightarrow> llvm_value gen" where
  "emit_eq builder l r t =
     (let is_const_expr = (builder = None) in
      if is_const_expr then
        (if is_float_type t then ereturn (ConstExpr (LLVMFCmp LLVMRealOEQ) [l, r])
         else ereturn (ConstExpr (LLVMICmp LLVMIntEQ) [l, r]))
      else
        (if is_float_type t then LLVMBuild builder (LLVMFCmp LLVMRealOEQ) [l, r] ''eq''
         else LLVMBuild builder (LLVMICmp LLVMIntEQ) [l, r] ''eq''))"

definition emit_ne :: "LLVMBuilderRef \<Rightarrow> llvm_value \<Rightarrow> llvm_value \<Rightarrow> type \<Rightarrow> llvm_value gen" where
  "emit_ne builder l r t =
     (let is_const_expr = (builder = None) in
      if is_const_expr then
        (if is_float_type t then ereturn (ConstExpr (LLVMFCmp LLVMRealONE) [l, r])
         else ereturn (ConstExpr (LLVMICmp LLVMIntNE) [l, r]))
      else
        (if is_float_type t then LLVMBuild builder (LLVMFCmp LLVMRealONE) [l, r] ''ne''
         else LLVMBuild builder (LLVMICmp LLVMIntNE) [l, r] ''ne''))"

definition is_assignment :: "bin_op \<Rightarrow> bool" where
  "is_assignment op =
     (op \<in> {ASSIGN_OP, ADD_ASSIGN_OP, SUB_ASSIGN_OP, MUL_ASSIGN_OP, DIV_ASSIGN_OP,
             MOD_ASSIGN_OP, BIT_AND_ASSIGN_OP, BIT_OR_ASSIGN_OP, BIT_XOR_ASSIGN_OP,
             BIT_SHIFT_L_ASSIGN_OP, BIT_SHIFT_R_ASSIGN_OP})"

text \<open>
  The switch of \<open>emit_bin_op_expr\<close>, after both operands are emitted and, for an
  assignment operator, the old value is loaded. \<open>LLVMBuildStore\<close> returns the store
  instruction it built, and that is what the assignment cases return.
\<close>

definition emit_bin_op_switch ::
  "LLVMBuilderRef \<Rightarrow> bin_op \<Rightarrow> llvm_value \<Rightarrow> llvm_value \<Rightarrow> type \<Rightarrow> llvm_value \<Rightarrow> llvm_value gen" where
  "emit_bin_op_switch builder op l r t old_val =
     (let is_const_expr = (builder = None);
          assign_store = (\<lambda>new_val. LLVMBuild builder LLVMStore [new_val, l] [])
      in case op of
        ADD_OP \<Rightarrow> emit_add builder l r t
      | SUB_OP \<Rightarrow> emit_sub builder l r t
      | MUL_OP \<Rightarrow> emit_mul builder l r t
      | DIV_OP \<Rightarrow> emit_div builder l r t
      | MOD_OP \<Rightarrow> emit_mod builder l r t
      | LT_OP \<Rightarrow> emit_lt builder l r t
      | GT_OP \<Rightarrow> emit_gt builder l r t
      | LT_EQ_OP \<Rightarrow> emit_le builder l r t
      | GT_EQ_OP \<Rightarrow> emit_ge builder l r t
      | EQ_OP \<Rightarrow> emit_eq builder l r t
      | NOT_EQ_OP \<Rightarrow> emit_ne builder l r t
      | BIT_AND_OP \<Rightarrow>
          if is_const_expr then ereturn (ConstExpr LLVMAnd [l, r])
          else LLVMBuild builder LLVMAnd [l, r] ''and''
      | LOG_AND_OP \<Rightarrow>
          if is_const_expr then ereturn (ConstExpr LLVMAnd [l, r])
          else LLVMBuild builder LLVMAnd [l, r] ''and''
      | BIT_OR_OP \<Rightarrow>
          if is_const_expr then ereturn (ConstExpr LLVMOr [l, r])
          else LLVMBuild builder LLVMOr [l, r] ''or''
      | LOG_OR_OP \<Rightarrow>
          if is_const_expr then ereturn (ConstExpr LLVMOr [l, r])
          else LLVMBuild builder LLVMOr [l, r] ''or''
      | BIT_XOR_OP \<Rightarrow>
          if is_const_expr then ereturn (ConstExpr LLVMXor [l, r])
          else LLVMBuild builder LLVMXor [l, r] ''xor''
      | BIT_SHIFT_L_OP \<Rightarrow>
          if is_const_expr then ereturn (ConstExpr LLVMShl [l, r])
          else LLVMBuild builder LLVMShl [l, r] ''shl''
      | BIT_SHIFT_R_OP \<Rightarrow>
          if is_const_expr then ereturn (ConstExpr LLVMLShr [l, r])
          else LLVMBuild builder LLVMLShr [l, r] ''lshr''
      | ASSIGN_OP \<Rightarrow> LLVMBuild builder LLVMStore [r, l] []
      | ADD_ASSIGN_OP \<Rightarrow> ebind (emit_add builder old_val r t) assign_store
      | SUB_ASSIGN_OP \<Rightarrow> ebind (emit_sub builder old_val r t) assign_store
      | MUL_ASSIGN_OP \<Rightarrow> ebind (emit_mul builder old_val r t) assign_store
      | DIV_ASSIGN_OP \<Rightarrow> ebind (emit_div builder old_val r t) assign_store
      | MOD_ASSIGN_OP \<Rightarrow> ebind (emit_mod builder old_val r t) assign_store
      | BIT_AND_ASSIGN_OP \<Rightarrow> ebind (LLVMBuild builder LLVMAnd [old_val, r] ''and'') assign_store
      | BIT_OR_ASSIGN_OP \<Rightarrow> ebind (LLVMBuild builder LLVMOr [old_val, r] ''or'') assign_store
      | BIT_XOR_ASSIGN_OP \<Rightarrow> ebind (LLVMBuild builder LLVMXor [old_val, r] ''xor'') assign_store
      | BIT_SHIFT_L_ASSIGN_OP \<Rightarrow> ebind (LLVMBuild builder LLVMShl [old_val, r] ''shl'') assign_store
      | BIT_SHIFT_R_ASSIGN_OP \<Rightarrow> ebind (LLVMBuild builder LLVMLShr [old_val, r] ''lshr'') assign_store
      | FIELD_OP \<Rightarrow> ereturn NULL_VALUE)"

text \<open>
  The four mutually recursive emitters of expressions. \<open>emit_unary_op_expr\<close> emits
  its operand before the switch, and \<open>emit_inc_or_dec_expr\<close> emits it again. A function
  that is handed an expression of another kind reads a union member the node does
  not hold.
\<close>

fun emit_expr :: "LLVMBuilderRef \<Rightarrow> expr \<Rightarrow> llvm_value gen"
  and emit_unary_op_expr :: "LLVMBuilderRef \<Rightarrow> expr \<Rightarrow> llvm_value gen"
  and emit_inc_or_dec_expr :: "LLVMBuilderRef \<Rightarrow> expr \<Rightarrow> llvm_value gen"
  and emit_bin_op_expr :: "LLVMBuilderRef \<Rightarrow> expr \<Rightarrow> llvm_value gen" where
  "emit_expr builder (BOOL_LIT_EXPR t val) =
     ebind (elift (get_llvm_type t)) (\<lambda>llvm_type.
       ereturn (LLVMConstInt llvm_type (if val then 1 else 0) False))"
| "emit_expr builder (INT_LIT_EXPR t val) =
     ebind (elift (get_llvm_type t)) (\<lambda>llvm_type.
       ereturn (LLVMConstInt llvm_type val False))"
| "emit_expr builder (FLOAT_LIT_EXPR t val) =
     ebind (elift (get_llvm_type t)) (\<lambda>llvm_type.
       ereturn (LLVMConstReal llvm_type val))"
| "emit_expr builder (CHAR_LIT_EXPR t val) =
     ebind (elift (get_llvm_type t)) (\<lambda>llvm_type.
       ereturn (LLVMConstInt llvm_type (ucast val) False))"
| "emit_expr builder (STRING_LIT_EXPR t val len) =
     ebind (elift (get_llvm_type t)) (\<lambda>llvm_type.
       ereturn (LLVMConstString val len True))"
| "emit_expr builder (UNARY_OP_EXPR t op operand) =
     ebind (elift (get_llvm_type t)) (\<lambda>llvm_type.
       emit_unary_op_expr builder (UNARY_OP_EXPR t op operand))"
| "emit_expr builder (BIN_OP_EXPR t op l r) =
     ebind (elift (get_llvm_type t)) (\<lambda>llvm_type.
       emit_bin_op_expr builder (BIN_OP_EXPR t op l r))"
| "emit_expr builder e =
     ebind (elift (get_llvm_type (expr_type e))) (\<lambda>llvm_type. ereturn NULL_VALUE)"
| "emit_unary_op_expr builder (UNARY_OP_EXPR t op operand_expr) =
     ebind (emit_expr builder operand_expr) (\<lambda>operand.
     ebind (elift (get_llvm_type t)) (\<lambda>llvm_type.
       let is_const_expr = (builder = None) in
       case op of
         NEG_OP \<Rightarrow>
           if is_const_expr then ereturn (ConstExpr LLVMNeg [operand])
           else LLVMBuild builder LLVMNeg [operand] ''neg''
       | PRE_INC_OP \<Rightarrow> emit_inc_or_dec_expr builder (UNARY_OP_EXPR t op operand_expr)
       | POST_INC_OP \<Rightarrow> emit_inc_or_dec_expr builder (UNARY_OP_EXPR t op operand_expr)
       | PRE_DEC_OP \<Rightarrow> emit_inc_or_dec_expr builder (UNARY_OP_EXPR t op operand_expr)
       | POST_DEC_OP \<Rightarrow> emit_inc_or_dec_expr builder (UNARY_OP_EXPR t op operand_expr)
       | DEREF_OP \<Rightarrow> LLVMBuild builder LLVMLoad [operand] ''deref''
       | REF_OP \<Rightarrow> ereturn operand
       | BIT_NOT_OP \<Rightarrow>
           if is_const_expr then ereturn (ConstExpr LLVMNot [operand])
           else LLVMBuild builder LLVMNot [operand] ''bitwise_not''
       | LOG_NOT_OP \<Rightarrow>
           (let zero_val = LLVMConstInt llvm_type 0 False in
            if is_const_expr then ereturn (ConstExpr (LLVMICmp LLVMIntEQ) [operand, zero_val])
            else LLVMBuild builder (LLVMICmp LLVMIntEQ) [operand, zero_val] ''logical_not'')))"
| "emit_unary_op_expr builder e = efail WrongUnionMember"
| "emit_inc_or_dec_expr builder (UNARY_OP_EXPR t op operand_expr) =
     ebind (emit_expr builder operand_expr) (\<lambda>ptr_val.
     ebind (elift (get_llvm_type t)) (\<lambda>llvm_type.
       let is_signed = (\<not> is_unsigned_int_type t);
           is_inc = (op = PRE_INC_OP \<or> op = POST_INC_OP);
           is_prefix = (op = PRE_INC_OP \<or> op = PRE_DEC_OP)
       in
       ebind (LLVMBuild builder LLVMLoad [ptr_val] ''inc_or_dec_load'') (\<lambda>old_val.
       let one_val = LLVMConstInt llvm_type 1 is_signed in
       ebind (if is_inc then LLVMBuild builder LLVMAdd [old_val, one_val] ''inc_add''
              else LLVMBuild builder LLVMSub [old_val, one_val] ''dec_add'') (\<lambda>new_val.
       ebind (LLVMBuild builder LLVMStore [new_val, ptr_val] []) (\<lambda>st.
       if is_prefix then ereturn new_val else ereturn old_val)))))"
| "emit_inc_or_dec_expr builder e = efail WrongUnionMember"
| "emit_bin_op_expr builder (BIN_OP_EXPR t op l_expr r_expr) =
     ebind (emit_expr builder l_expr) (\<lambda>l.
     ebind (emit_expr builder r_expr) (\<lambda>r.
     ebind (if is_assignment op then LLVMBuild builder LLVMLoad [l] ''assign_load''
            else ereturn NULL_VALUE) (\<lambda>old_val.
       emit_bin_op_switch builder op l r t old_val)))"
| "emit_bin_op_expr builder e = efail WrongUnionMember"

definition emit_const_expr :: "expr \<Rightarrow> llvm_value gen" where
  "emit_const_expr e = emit_expr None e"

subsection \<open>Statements\<close>

definition emit_local_val :: "LLVMBuilderRef \<Rightarrow> type \<Rightarrow> string \<Rightarrow> expr option \<Rightarrow> unit gen" where
  "emit_local_val builder t name init_expr =
     ebind (elift (get_llvm_type t)) (\<lambda>llvm_type.
     ebind (LLVMBuild builder (LLVMAlloca llvm_type) [] name) (\<lambda>local_ptr.
     ebind (case init_expr of
              None \<Rightarrow> ereturn ()
            | Some e \<Rightarrow>
                ebind (emit_expr builder e) (\<lambda>v.
                ebind (LLVMBuild builder LLVMStore [v, local_ptr] []) (\<lambda>st. ereturn ()))) (\<lambda>x.
     insert_symbol name local_ptr)))"

text \<open>
  \<open>get_cur_func\<close> asks the builder for the function of its block; there is one
  function under construction here, so only the access to the builder is kept.
\<close>

definition get_cur_func :: "LLVMBuilderRef \<Rightarrow> unit gen" where
  "get_cur_func builder = (case builder of None \<Rightarrow> efail NullBuilder | Some b \<Rightarrow> ereturn ())"

fun emit_stmts :: "LLVMBuilderRef \<Rightarrow> stmt list \<Rightarrow> unit gen"
  and emit_stmt :: "LLVMBuilderRef \<Rightarrow> stmt \<Rightarrow> unit gen"
  and emit_if_stmt :: "LLVMBuilderRef \<Rightarrow> stmt \<Rightarrow> unit gen"
  and emit_do_stmt :: "LLVMBuilderRef \<Rightarrow> stmt \<Rightarrow> unit gen" where
  "emit_stmts builder [] = ereturn ()"
| "emit_stmts builder (st # stmts) =
     ebind (emit_stmt builder st) (\<lambda>x. emit_stmts builder stmts)"
| "emit_stmt builder (DECL_STMT d) =
     emit_local_val builder (decl_type d) (decl_name d) (init d)"
| "emit_stmt builder (EXPR_STMT e) = ebind (emit_expr builder e) (\<lambda>v. ereturn ())"
| "emit_stmt builder (IF_STMT cond then_stmts else_stmts) =
     emit_if_stmt builder (IF_STMT cond then_stmts else_stmts)"
| "emit_stmt builder (DO_STMT stmts cond) = emit_do_stmt builder (DO_STMT stmts cond)"
| "emit_stmt builder WHILE_STMT = ereturn ()"
| "emit_stmt builder FOR_STMT = ereturn ()"
| "emit_if_stmt builder (IF_STMT cond then_stmts else_stmts) =
     ebind (get_cur_func builder) (\<lambda>func_val.
     ebind (emit_expr builder cond) (\<lambda>cond_val.
     ebind (LLVMAppendBasicBlock ''then'') (\<lambda>then_block.
     ebind (LLVMAppendBasicBlock ''else'') (\<lambda>else_block.
     ebind (LLVMAppendBasicBlock ''merge'') (\<lambda>merge_block.
     ebind (LLVMBuild builder (LLVMCondBr then_block else_block) [cond_val] []) (\<lambda>br.
     ebind (LLVMPositionBuilderAtEnd builder then_block) (\<lambda>x.
     ebind (emit_stmts builder then_stmts) (\<lambda>x.
     ebind (LLVMBuild builder (LLVMBr merge_block) [] []) (\<lambda>br.
     ebind (LLVMPositionBuilderAtEnd builder else_block) (\<lambda>x.
     ebind (emit_stmts builder else_stmts) (\<lambda>x.
     ebind (LLVMBuild builder (LLVMBr merge_block) [] []) (\<lambda>br.
     LLVMPositionBuilderAtEnd builder merge_block))))))))))))"
| "emit_if_stmt builder st = efail WrongUnionMember"
| "emit_do_stmt builder (DO_STMT stmts cond) =
     ebind (get_cur_func builder) (\<lambda>func_val.
     ebind (emit_expr builder cond) (\<lambda>cond_val.
     ebind (LLVMAppendBasicBlock ''do'') (\<lambda>do_block.
     ebind (LLVMAppendBasicBlock ''after_do'') (\<lambda>after_do_block.
     ebind (LLVMPositionBuilderAtEnd builder do_block) (\<lambda>x.
     ebind (emit_stmts builder stmts) (\<lambda>x.
     ebind (LLVMBuild builder (LLVMCondBr do_block after_do_block) [cond_val] []) (\<lambda>br.
     LLVMPositionBuilderAtEnd builder after_do_block)))))))"
| "emit_do_stmt builder st = efail WrongUnionMember"

subsection \<open>Definitions used to state the properties of the code generator\<close>

text \<open>The state with the instructions \<open>is\<close> appended to the block the builder is at.\<close>

definition append_instrs :: "gen_state \<Rightarrow> llvm_value list \<Rightarrow> gen_state" where
  "append_instrs s is =
     s\<lparr>blocks := (blocks s)[insert_block s :=
          (fst (blocks s ! insert_block s), snd (blocks s ! insert_block s) @ is)]\<rparr>"

text \<open>
  The instruction of the binary operator that belongs to a compound assignment
  operator, applied to the old value and the right operand: the float, unsigned or
  signed variant by the type of the expression where the operator has variants.
\<close>

definition compound_assign_instr ::
  "bin_op \<Rightarrow> type \<Rightarrow> llvm_value \<Rightarrow> llvm_value \<Rightarrow> llvm_value option" where
  "compound_assign_instr op t old_val r =
     (case op of
        ADD_ASSIGN_OP \<Rightarrow>
          Some (Instr (if is_float_type t then LLVMFAdd else LLVMAdd) [old_val, r] ''add'')
      | SUB_ASSIGN_OP \<Rightarrow>
          Some (Instr (if is_float_type t then LLVMFSub else LLVMSub) [old_val, r] ''sub'')
      | MUL_ASSIGN_OP \<Rightarrow>
          Some (Instr (if is_float_type t then LLVMFMul else LLVMMul) [old_val, r] ''mul'')
      | DIV_ASSIGN_OP \<Rightarrow>
          Some (Instr (if is_float_type t then LLVMFDiv
                       else if is_unsigned_int_type t then LLVMUDiv else LLVMSDiv)
                  [old_val, r] ''div'')
      | MOD_ASSIGN_OP \<Rightarrow>
          Some (Instr (if is_float_type t then LLVMFRem
                       else if is_unsigned_int_type t then LLVMURem else LLVMSRem)
                  [old_val, r] ''mod'')
      | BIT_AND_ASSIGN_OP \<Rightarrow> Some (Instr LLVMAnd [old_val, r] ''and'')
      | BIT_OR_ASSIGN_OP \<Rightarrow> Some (Instr LLVMOr [old_val, r] ''or'')
      | BIT_XOR_ASSIGN_OP \<Rightarrow> Some (Instr LLVMXor [old_val, r] ''xor'')
      | BIT_SHIFT_L_ASSIGN_OP \<Rightarrow> Some (Instr LLVMShl [old_val, r] ''shl'')
      | BIT_SHIFT_R_ASSIGN_OP \<Rightarrow> Some (Instr LLVMLShr [old_val, r] ''lshr'')
      | _ \<Rightarrow> None)"

text \<open>
  A function body to emit into: one empty entry block, the builder at its end, and
  one empty scope.
\<close>

definition entry_state :: gen_state where
  "entry_state = \<lparr>blocks = [(''f'', [])], insert_block = 0, sym_tbl = [[]]\<rparr>"

text \<open>The statement \<open>do { i += 1; } while (i < 10);\<close> with \<open>i\<close> of type \<open>U32\<close>.\<close>

definition sample_do_stmt :: stmt where
  "sample_do_stmt =
     DO_STMT
       [EXPR_STMT (BIN_OP_EXPR U32_TYPE ADD_ASSIGN_OP
                     (IDENT_EXPR U32_TYPE ''i'') (INT_LIT_EXPR U32_TYPE 1))]
       (BIN_OP_EXPR BOOL_TYPE LT_OP (IDENT_EXPR U32_TYPE ''i'') (INT_LIT_EXPR U32_TYPE 10))"

text \<open>
  A fully resolved type: no alias and no type parameter anywhere in it.
\<close>

fun resolved :: "type \<Rightarrow> bool" where
  "resolved (ALIAS_TYPE a) = False"
| "resolved (PARAM_TYPE a) = False"
| "resolved (ARRAY_TYPE l len) = resolved l"
| "resolved (POINTER_TYPE l) = resolved l"
| "resolved (TUPLE_TYPE types) = list_all resolved types"
| "resolved (FUNC_TYPE params ret) = (list_all resolved params \<and> resolved ret)"
| "resolved t = True"

section \<open>Properties of the lexer\<close>

subsection \<open>Evaluation and basic facts\<close>

lemmas lex_eval =
  lex_def init_lex_def skip_spaces.simps skip_line_comment_def skip_block_comment_def
  inc_lineno_def MAX_LINENO_def isspace_def isdigit_def isalpha_def isalnum_def IN_RANGE_def
  starts2_def is_op_char_def lex_op_def lex_op_0_def lex_op_1_def lex_op_2_def
  init_basic_tok_def is_ident_head_def is_ident_tail_def
  lex_num_lit_def lex_num_lit_with_base_def get_is_valid_digit_func_def
  is_bin_digit_def is_oct_digit_def is_dec_digit_def is_hex_digit_def
  strtoull_def digit_value_def ULLONG_MAX_def UINT64_MAX_def
  init_int_lit_tok_def init_float_lit_tok_def MAX_NUM_CHARS_def
  lex_string_lit_def init_string_lit_tok_def c_str_def

lemma skip_spaces_stop:
  "\<not> isspace c \<Longrightarrow> c \<noteq> CHR ''/'' \<Longrightarrow>
   skip_spaces \<lparr>inp = c # cs, lineno = n\<rparr> = Inr \<lparr>inp = c # cs, lineno = n\<rparr>"
  by (subst skip_spaces.simps) (simp add: starts2_def)

lemma isdigit_dispatch:
  assumes "isdigit c"
  shows "\<not> isspace c" "c \<noteq> CHR ''/''" "c \<noteq> CHR 0x27" "c \<noteq> CHR 0x22" "c \<noteq> NUL"
    "\<not> is_op_char c" "\<not> is_ident_head c" "c \<noteq> CHR ''.''"
  using assms
  by (auto simp: isdigit_def isspace_def is_op_char_def is_ident_head_def isalpha_def IN_RANGE_def)

lemma lex_digit:
  "isdigit c \<Longrightarrow> lex E \<lparr>inp = c # cs, lineno = n\<rparr> = lex_num_lit E \<lparr>inp = c # cs, lineno = n\<rparr>"
  by (simp add: lex_def skip_spaces_stop isdigit_dispatch)


subsection \<open>Integer literals\<close>

lemma positional_value_snoc:
  "positional_value b (ds @ [d]) = positional_value b ds * b + digit_value d"
proof -
  have "(\<Sum>i<length ds. digit_value ((ds @ [d]) ! i) * b ^ (length ds - i)) =
        (\<Sum>i<length ds. digit_value (ds ! i) * b ^ (length ds - 1 - i) * b)"
  proof (rule sum.cong)
    fix i assume "i \<in> {..<length ds}"
    then have i: "i < length ds" by simp
    then have "length ds - i = Suc (length ds - 1 - i)" by simp
    with i show "digit_value ((ds @ [d]) ! i) * b ^ (length ds - i) =
                 digit_value (ds ! i) * b ^ (length ds - 1 - i) * b"
      by (simp add: nth_append)
  qed simp
  then show ?thesis
    by (simp add: positional_value_def sum_distrib_right)
qed

lemma foldl_positional_value:
  "foldl (\<lambda>acc c. acc * b + digit_value c) 0 ds = positional_value b ds"
proof (induction ds rule: rev_induct)
  case Nil
  show ?case by (simp add: positional_value_def)
next
  case (snoc d ds)
  then show ?case by (simp add: positional_value_snoc)
qed

lemma valid_digit_value:
  "b \<in> {2, 8, 10, 16} \<Longrightarrow> valid_digit b c \<Longrightarrow> digit_value c < b"
  by (auto simp: valid_digit_def get_is_valid_digit_func_def is_bin_digit_def is_oct_digit_def
      is_dec_digit_def is_hex_digit_def isdigit_def digit_value_def IN_RANGE_def)

lemma valid_digit_not_dot:
  "b \<in> {2, 8, 10, 16} \<Longrightarrow> valid_digit b c \<Longrightarrow> c \<noteq> CHR ''.''"
  by (auto simp: valid_digit_def get_is_valid_digit_func_def is_bin_digit_def is_oct_digit_def
      is_dec_digit_def is_hex_digit_def isdigit_def IN_RANGE_def)

lemma get_is_valid_digit_func_valid:
  "b \<in> {2, 8, 10, 16} \<Longrightarrow> get_is_valid_digit_func b = Inr (valid_digit b)"
  by (auto simp: valid_digit_def get_is_valid_digit_func_def)

lemma strtoull_digits:
  assumes "b \<in> {2, 8, 10, 16}" and "list_all (valid_digit b) ds"
  shows "strtoull ds b =
     (if ULLONG_MAX < positional_value b ds then (ULLONG_MAX, True)
      else (positional_value b ds, False))"
proof -
  have "\<forall>c\<in>set ds. digit_value c < b"
    using valid_digit_value [OF assms(1)] assms(2) by (simp add: list_all_iff)
  then have tw: "takeWhile (\<lambda>c. digit_value c < b) ds = ds"
    by (rule takeWhile_eq_all_conv [THEN iffD2])
  show ?thesis
    unfolding strtoull_def tw foldl_positional_value by (simp add: Let_def)
qed

lemma num_lit_loop_digits:
  "list_all v ds \<Longrightarrow> CHR ''.'' \<notin> set ds \<Longrightarrow> length acc + length ds \<le> MAX_NUM_CHARS \<Longrightarrow>
   \<not> v c \<Longrightarrow> c \<noteq> CHR ''.'' \<Longrightarrow>
   num_lit_loop v ln (ds @ c # cs) acc False = Inr (c # cs, acc @ ds, False)"
proof (induction ds arbitrary: acc)
  case Nil
  then show ?case by simp
next
  case (Cons d ds)
  from Cons.prems have d: "d \<noteq> CHR ''.''" by auto
  from Cons.prems have "num_lit_loop v ln (ds @ c # cs) (acc @ [d]) False = Inr (c # cs, (acc @ [d]) @ ds, False)"
    by (intro Cons.IH) auto
  with Cons.prems d show ?case by simp
qed

lemma num_lit_loop_too_many:
  "list_all v ds \<Longrightarrow> CHR ''.'' \<notin> set ds \<Longrightarrow> length acc \<le> MAX_NUM_CHARS \<Longrightarrow>
   MAX_NUM_CHARS < length acc + length ds \<Longrightarrow>
   num_lit_loop v ln (ds @ rest) acc False = Inl (Fatal ln NumTooManyChars)"
proof (induction ds arbitrary: acc)
  case Nil
  then show ?case by simp
next
  case (Cons d ds)
  show ?case
  proof (cases "length acc = MAX_NUM_CHARS")
    case True
    with Cons.prems show ?thesis by simp
  next
    case False
    from Cons.prems have d: "d \<noteq> CHR ''.''" by auto
    from False Cons.prems
    have "num_lit_loop v ln (ds @ rest) (acc @ [d]) False = Inl (Fatal ln NumTooManyChars)"
      by (intro Cons.IH) auto
    with Cons.prems False d show ?thesis by simp
  qed
qed

lemma lex_num_lit_with_base_digits:
  assumes b: "b \<in> {2, 8, 10, 16}" and ds: "list_all (valid_digit b) ds"
    and c: "\<not> valid_digit b c" "c \<noteq> CHR ''.''"
  shows "lex_num_lit_with_base E \<lparr>inp = ds @ c # cs, lineno = n\<rparr> b =
     (if ds = [] then Inl (Fatal n NumNoDigits)
      else if MAX_NUM_CHARS < length ds then Inl (Fatal n NumTooManyChars)
      else if positional_value b ds < 2 ^ 64
      then Inr (\<lparr>kind = INT_LIT, tok_lineno = n, u = U_int_lit (of_nat (positional_value b ds))\<rparr>,
                \<lparr>inp = c # cs, lineno = n\<rparr>)
      else Inl (Fatal n IntTooLarge))"
proof -
  have nodot: "CHR ''.'' \<notin> set ds"
    using valid_digit_not_dot [OF b] ds by (auto simp: list_all_iff)
  show ?thesis
  proof (cases "MAX_NUM_CHARS < length ds")
    case True
    then have "ds \<noteq> []" by auto
    moreover have "num_lit_loop (valid_digit b) n (ds @ c # cs) [] False = Inl (Fatal n NumTooManyChars)"
      using ds nodot True by (intro num_lit_loop_too_many) auto
    ultimately show ?thesis
      using True by (simp add: lex_num_lit_with_base_def get_is_valid_digit_func_valid [OF b])
  next
    case False
    then have "num_lit_loop (valid_digit b) n (ds @ c # cs) [] False = Inr (c # cs, [] @ ds, False)"
      using ds nodot c by (intro num_lit_loop_digits) auto
    then show ?thesis
      using False
      by (auto simp: lex_num_lit_with_base_def get_is_valid_digit_func_valid [OF b]
          strtoull_digits [OF b ds] ULLONG_MAX_def UINT64_MAX_def init_int_lit_tok_def)
  qed
qed

text \<open>
  Claim C8, as amended. Take an integer literal of base 2, 8 or 16, written as the
  prefix \<open>0b\<close>, \<open>0o\<close> or \<open>0x\<close> and at least one digit of the base (\<open>0\<close>-\<open>1\<close>, \<open>0\<close>-\<open>7\<close>,
  \<open>0\<close>-\<open>9\<close> and the uppercase letters \<open>A\<close>-\<open>F\<close>), or of base 10, written as at least one
  digit \<open>0\<close>-\<open>9\<close> the first of which is not \<open>0\<close>, or as the single digit \<open>0\<close> when the byte
  after it is not \<open>b\<close>, \<open>o\<close> or \<open>x\<close>. Let the literal be followed by a byte \<open>c\<close> (the NUL that
  ends the input included) that is neither a digit of the base nor a radix point.
  Then \<open>lex\<close>, called at the literal, fails with the too-many-characters error when
  the literal has more than \<open>MAX_NUM_CHARS\<close> (128) digits, whatever its value; otherwise
  it yields the integer token whose 64-bit magnitude is the value of the digits in
  that base, and stops at \<open>c\<close>, when that value is below \<open>2 ^ 64\<close>, and fails with the
  integer-too-large error when it is not.
\<close>

theorem lex_int_lit_value:
  assumes b: "b \<in> {2, 8, 10, 16}"
    and ds: "ds \<noteq> []" "list_all (valid_digit b) ds"
    and lead: "b = 10 \<longrightarrow> hd ds \<noteq> CHR ''0'' \<or> (ds = ''0'' \<and> c \<notin> set ''box'')"
    and c: "\<not> valid_digit b c" "c \<noteq> CHR ''.''"
  shows "lex E \<lparr>inp = lit_prefix b @ ds @ c # cs, lineno = n\<rparr> =
     (if MAX_NUM_CHARS < length ds then Inl (Fatal n NumTooManyChars)
      else if positional_value b ds < 2 ^ 64
      then Inr (\<lparr>kind = INT_LIT, tok_lineno = n, u = U_int_lit (of_nat (positional_value b ds))\<rparr>,
                \<lparr>inp = c # cs, lineno = n\<rparr>)
      else Inl (Fatal n IntTooLarge))
    \<and> (positional_value b ds < 2 ^ 64 \<longrightarrow>
         unat (of_nat (positional_value b ds) :: 64 word) = positional_value b ds)"
proof
  note body = lex_num_lit_with_base_digits [OF b ds(2) c, of E cs n]
  show "lex E \<lparr>inp = lit_prefix b @ ds @ c # cs, lineno = n\<rparr> =
     (if MAX_NUM_CHARS < length ds then Inl (Fatal n NumTooManyChars)
      else if positional_value b ds < 2 ^ 64
      then Inr (\<lparr>kind = INT_LIT, tok_lineno = n, u = U_int_lit (of_nat (positional_value b ds))\<rparr>,
                \<lparr>inp = c # cs, lineno = n\<rparr>)
      else Inl (Fatal n IntTooLarge))"
  proof (cases "b = 10")
    case True
    from ds(1) obtain d ds' where dds: "ds = d # ds'" by (cases ds) auto
    with ds(2) True have dig: "isdigit d"
      by (simp add: valid_digit_def get_is_valid_digit_func_def is_dec_digit_def)
    show ?thesis
    proof (cases "d = CHR ''0''")
      case False
      have "lex E \<lparr>inp = d # ds' @ c # cs, lineno = n\<rparr> =
            lex_num_lit_with_base E \<lparr>inp = d # ds' @ c # cs, lineno = n\<rparr> 10"
        using False by (simp add: lex_digit [OF dig] lex_num_lit_def)
      with body True dds ds(1) show ?thesis by (simp add: lit_prefix_def)
    next
      case zero: True
      with lead \<open>b = 10\<close> dds have ds0: "ds = ''0''" and cbox: "c \<notin> set ''box''" by auto
      from c(1) \<open>b = 10\<close> have nd: "\<not> is_dec_digit c"
        by (simp add: valid_digit_def get_is_valid_digit_func_def)
      have "lex E \<lparr>inp = CHR ''0'' # c # cs, lineno = n\<rparr> =
            Inr (\<lparr>kind = INT_LIT, tok_lineno = n, u = U_int_lit 0\<rparr>, \<lparr>inp = c # cs, lineno = n\<rparr>)"
        using cbox c(2) nd dig zero
        by (simp add: lex_digit lex_num_lit_def init_int_lit_tok_def)
      with ds0 \<open>b = 10\<close> show ?thesis
        by (simp add: lit_prefix_def MAX_NUM_CHARS_def positional_value_def digit_value_def
            IN_RANGE_def)
    qed
  next
    case False
    with b have pre: "lit_prefix b = [CHR ''0'', hd (tl (lit_prefix b))]"
      and p: "hd (tl (lit_prefix b)) = (if b = 2 then CHR ''b'' else if b = 8 then CHR ''o'' else CHR ''x'')"
      by (auto simp: lit_prefix_def)
    have z: "isdigit (CHR ''0'')" by (simp add: isdigit_def IN_RANGE_def)
    have "lex E \<lparr>inp = CHR ''0'' # hd (tl (lit_prefix b)) # ds @ c # cs, lineno = n\<rparr> =
          lex_num_lit_with_base E \<lparr>inp = ds @ c # cs, lineno = n\<rparr> b"
      using b False unfolding p by (auto simp: lex_digit [OF z] lex_num_lit_def)
    with body ds(1) show ?thesis by (subst pre) simp
  qed
next
  show "positional_value b ds < 2 ^ 64 \<longrightarrow>
        unat (of_nat (positional_value b ds) :: 64 word) = positional_value b ds"
    by (simp add: unat_of_nat)
qed

lemma positional_value_Cons:
  "positional_value b (d # ds) = digit_value d * b ^ length ds + positional_value b ds"
  by (simp add: positional_value_def lessThan_Suc_eq_insert_0 sum.atLeast0_lessThan_Suc_shift
      zero_notin_Suc_image sum.reindex)

lemma positional_value_Nil: "positional_value b [] = 0"
  by (simp add: positional_value_def)

text \<open>
  The four literals of the claim, \<open>0x1F\<close>, \<open>0b11111\<close>, \<open>0o37\<close> and \<open>31\<close>, all yield the
  magnitude 31, and the literal \<open>0\<close> yields the magnitude 0.
\<close>

theorem lex_int_lit_value_witness:
  "lex sample_env (init_lex ''0x1F'') =
     Inr (\<lparr>kind = INT_LIT, tok_lineno = 1, u = U_int_lit 31\<rparr>, \<lparr>inp = [NUL], lineno = 1\<rparr>)
   \<and> lex sample_env (init_lex ''0b11111'') =
     Inr (\<lparr>kind = INT_LIT, tok_lineno = 1, u = U_int_lit 31\<rparr>, \<lparr>inp = [NUL], lineno = 1\<rparr>)
   \<and> lex sample_env (init_lex ''0o37'') =
     Inr (\<lparr>kind = INT_LIT, tok_lineno = 1, u = U_int_lit 31\<rparr>, \<lparr>inp = [NUL], lineno = 1\<rparr>)
   \<and> lex sample_env (init_lex ''31'') =
     Inr (\<lparr>kind = INT_LIT, tok_lineno = 1, u = U_int_lit 31\<rparr>, \<lparr>inp = [NUL], lineno = 1\<rparr>)
   \<and> lex sample_env (init_lex ''0'') =
     Inr (\<lparr>kind = INT_LIT, tok_lineno = 1, u = U_int_lit 0\<rparr>, \<lparr>inp = [NUL], lineno = 1\<rparr>)"
  using lex_int_lit_value [of 16 "''1F''" NUL sample_env "[]" 1]
    lex_int_lit_value [of 2 "''11111''" NUL sample_env "[]" 1]
    lex_int_lit_value [of 8 "''37''" NUL sample_env "[]" 1]
    lex_int_lit_value [of 10 "''31''" NUL sample_env "[]" 1]
    lex_int_lit_value [of 10 "''0''" NUL sample_env "[]" 1]
  by (simp add: init_lex_def lit_prefix_def valid_digit_def get_is_valid_digit_func_def
      is_bin_digit_def is_oct_digit_def is_dec_digit_def is_hex_digit_def isdigit_def
      IN_RANGE_def MAX_NUM_CHARS_def positional_value_Cons positional_value_Nil digit_value_def)

text \<open>
  The claim C8 as stated fails at three literals whose values fit in 64 bits: 129
  binary digits, all zero, stop the scanner with the too-many-characters error; \<open>0xff\<close>,
  written with lowercase letters, fails with the no-digits error; and \<open>007\<close>, a decimal
  literal that starts with a zero, fails with the leading-zero error.
\<close>

theorem int_lit_counterexample:
  "lex sample_env (init_lex (''0b'' @ replicate 129 (CHR ''0''))) = Inl (Fatal 1 NumTooManyChars)
   \<and> lex sample_env (init_lex ''0xff'') = Inl (Fatal 1 NumNoDigits)
   \<and> lex sample_env (init_lex ''007'') = Inl (Fatal 1 LeadingZero)"
proof (intro conjI)
  have b: "(2::nat) \<in> {2, 8, 10, 16}" by simp
  have z: "isdigit (CHR ''0'')" by (simp add: isdigit_def IN_RANGE_def)
  have v: "list_all (valid_digit 2) (replicate 129 (CHR ''0''))"
    by (simp add: list_all_iff valid_digit_def get_is_valid_digit_func_def is_bin_digit_def)
  have c: "\<not> valid_digit 2 NUL" "NUL \<noteq> CHR ''.''"
    by (simp_all add: valid_digit_def get_is_valid_digit_func_def is_bin_digit_def)
  have "lex sample_env \<lparr>inp = CHR ''0'' # CHR ''b'' # replicate 129 (CHR ''0'') @ [NUL], lineno = 1\<rparr> =
        lex_num_lit_with_base sample_env \<lparr>inp = replicate 129 (CHR ''0'') @ [NUL], lineno = 1\<rparr> 2"
    by (simp add: lex_digit [OF z] lex_num_lit_def)
  also have "\<dots> = Inl (Fatal 1 NumTooManyChars)"
    by (simp add: lex_num_lit_with_base_digits [OF b v c] MAX_NUM_CHARS_def)
  finally show "lex sample_env (init_lex (''0b'' @ replicate 129 (CHR ''0''))) =
      Inl (Fatal 1 NumTooManyChars)"
    by (simp add: init_lex_def)
  show "lex sample_env (init_lex ''0xff'') = Inl (Fatal 1 NumNoDigits)"
    by (simp add: lex_eval)
  show "lex sample_env (init_lex ''007'') = Inl (Fatal 1 LeadingZero)"
    by (simp add: lex_eval)
qed

subsection \<open>Hexadecimal digits\<close>

lemma is_hex_digit_chars: "is_hex_digit c \<longleftrightarrow> c \<in> set ''0123456789ABCDEF''"
  unfolding is_hex_digit_def is_dec_digit_def isdigit_def IN_RANGE_def
  by (cases c) (auto simp: of_char_def horner_sum_eq_sum)

lemma lex_0x_no_hex_digit:
  assumes "\<not> is_hex_digit c" "c \<noteq> CHR ''.''"
  shows "lex E \<lparr>inp = CHR ''0'' # CHR ''x'' # c # rest, lineno = n\<rparr> = Inl (Fatal n NumNoDigits)"
proof -
  have z: "isdigit (CHR ''0'')" by (simp add: isdigit_def IN_RANGE_def)
  show ?thesis
    using assms
    by (simp add: lex_digit [OF z] lex_num_lit_def lex_num_lit_with_base_def
        get_is_valid_digit_func_def)
qed

text \<open>
  Claim C10: \<open>is_hex_digit\<close> accepts exactly \<open>0\<close>-\<open>9\<close> and \<open>A\<close>-\<open>F\<close>. A lowercase letter
  \<open>a\<close>-\<open>f\<close> is no hexadecimal digit, and a literal in which such a letter follows the
  prefix \<open>0x\<close> accumulates no digit: \<open>lex\<close> fails with the no-digits error.
\<close>

theorem hex_digit_uppercase_only:
  "(is_hex_digit c \<longleftrightarrow> c \<in> set ''0123456789ABCDEF'') \<and>
   (c \<in> set ''abcdef'' \<longrightarrow>
      \<not> is_hex_digit c \<and>
      lex E \<lparr>inp = CHR ''0'' # CHR ''x'' # c # rest, lineno = n\<rparr> = Inl (Fatal n NumNoDigits))"
proof (intro conjI impI)
  show "is_hex_digit c \<longleftrightarrow> c \<in> set ''0123456789ABCDEF''" by (rule is_hex_digit_chars)
next
  assume lower: "c \<in> set ''abcdef''"
  then show nh: "\<not> is_hex_digit c" by (auto simp: is_hex_digit_chars)
  from lower have "c \<noteq> CHR ''.''" by auto
  with nh show "lex E \<lparr>inp = CHR ''0'' # CHR ''x'' # c # rest, lineno = n\<rparr> = Inl (Fatal n NumNoDigits)"
    by (rule lex_0x_no_hex_digit)
qed

theorem hex_digit_uppercase_only_witness:
  "\<not> is_hex_digit (CHR ''f'') \<and> lex sample_env (init_lex ''0xff'') = Inl (Fatal 1 NumNoDigits)"
  using hex_digit_uppercase_only [of "CHR ''f''" sample_env "''f'' @ [NUL]" 1]
  by (simp add: init_lex_def)

subsection \<open>End of input\<close>

lemma skip_spaces_at_NUL:
  "skip_spaces \<lparr>inp = NUL # rest, lineno = n\<rparr> = Inr \<lparr>inp = NUL # rest, lineno = n\<rparr>"
  by (rule skip_spaces_stop) (simp_all add: isspace_def IN_RANGE_def)

lemma lex_at_NUL:
  "lex E \<lparr>inp = NUL # rest, lineno = n\<rparr> =
     Inr (\<lparr>kind = TEOF, tok_lineno = n, u = U_none\<rparr>, \<lparr>inp = NUL # rest, lineno = n\<rparr>)"
  by (simp add: lex_def skip_spaces_at_NUL init_basic_tok_def)

text \<open>
  Claim C9: when the byte at the scan position is the NUL that ends the input, \<open>lex\<close>
  yields the end-of-file token and leaves the position and the line counter as they
  are; so any number \<open>k\<close> of calls in a row yields \<open>k\<close> end-of-file tokens, without error.
\<close>

theorem lex_eof_idempotent:
  "lex E \<lparr>inp = NUL # rest, lineno = n\<rparr> =
     Inr (\<lparr>kind = TEOF, tok_lineno = n, u = U_none\<rparr>, \<lparr>inp = NUL # rest, lineno = n\<rparr>)
   \<and> lex_repeat E k \<lparr>inp = NUL # rest, lineno = n\<rparr> =
     Inr (replicate k \<lparr>kind = TEOF, tok_lineno = n, u = U_none\<rparr>, \<lparr>inp = NUL # rest, lineno = n\<rparr>)"
proof
  show "lex E \<lparr>inp = NUL # rest, lineno = n\<rparr> =
     Inr (\<lparr>kind = TEOF, tok_lineno = n, u = U_none\<rparr>, \<lparr>inp = NUL # rest, lineno = n\<rparr>)"
    by (rule lex_at_NUL)
  show "lex_repeat E k \<lparr>inp = NUL # rest, lineno = n\<rparr> =
     Inr (replicate k \<lparr>kind = TEOF, tok_lineno = n, u = U_none\<rparr>, \<lparr>inp = NUL # rest, lineno = n\<rparr>)"
    by (induction k) (simp_all add: lex_at_NUL)
qed

subsection \<open>Malformed numeric literals\<close>



subsection \<open>Operators and their printed forms\<close>

text \<open>
  Claim C4 does not hold of the code. The table gives \<open><<=\<close>, \<open>>>=\<close>, \<open>->\<close>, \<open><-\<close>, \<open>=>\<close> and
  the backslash as printed forms, and \<open>lex_op\<close> has no case that yields their kinds:
  \<open>lex\<close> on each printed form yields the token of a proper prefix (or, for the
  backslash, the invalid-token error).
\<close>

theorem operators_never_lexed:
  "lex E (init_lex (printed_form LT_LT_EQ)) =
     Inr (\<lparr>kind = LT_LT, tok_lineno = 1, u = U_none\<rparr>, \<lparr>inp = ''='' @ [NUL], lineno = 1\<rparr>)
   \<and> lex E (init_lex (printed_form GT_GT_EQ)) =
     Inr (\<lparr>kind = GT_GT, tok_lineno = 1, u = U_none\<rparr>, \<lparr>inp = ''='' @ [NUL], lineno = 1\<rparr>)
   \<and> lex E (init_lex (printed_form ARROW)) =
     Inr (\<lparr>kind = MINUS, tok_lineno = 1, u = U_none\<rparr>, \<lparr>inp = ''>'' @ [NUL], lineno = 1\<rparr>)
   \<and> lex E (init_lex (printed_form BACK_ARROW)) =
     Inr (\<lparr>kind = LT, tok_lineno = 1, u = U_none\<rparr>, \<lparr>inp = ''-'' @ [NUL], lineno = 1\<rparr>)
   \<and> lex E (init_lex (printed_form BIG_ARROW)) =
     Inr (\<lparr>kind = EQ, tok_lineno = 1, u = U_none\<rparr>, \<lparr>inp = ''>'' @ [NUL], lineno = 1\<rparr>)
   \<and> lex E (init_lex (printed_form BACKSLASH)) = Inl (Fatal 1 (InvalidToken (CHR 0x5C)))"
  by (simp add: printed_form_def lex_eval)

text \<open>Every other operator and delimiter of the table is lexed back to its kind.\<close>

lemma lexed_operators_round_trip:
  "list_all
     (\<lambda>k. lex E (init_lex (printed_form k)) =
            Inr (\<lparr>kind = k, tok_lineno = 1, u = U_none\<rparr>, \<lparr>inp = [NUL], lineno = 1\<rparr>))
     lexed_operators"
  by (simp add: lexed_operators_def printed_form_def lex_eval)

subsection \<open>Newlines\<close>

text \<open>
  Claim C3 does not hold of the code inside string literals. \<open>lex\<close> on the literal
  \<open>"a\nb"\<close> consumes one newline, and the line counter is 1 afterwards, whatever the
  limits and the validator are; the same newline inside a block comment is counted.
\<close>

theorem string_lit_newline_not_counted:
  "lex E (init_lex [DQUOTE, CHR ''a'', NL, CHR ''b'', DQUOTE]) =
     (if MAX_STRING_SIZE E < 3 then Inl (Fatal 1 StringLitTooLong)
      else if is_valid_utf8 E [CHR ''a'', NL, CHR ''b'']
      then Inr (\<lparr>kind = STRING_LIT, tok_lineno = 1, u = U_string_lit [CHR ''a'', NL, CHR ''b''] 3\<rparr>,
                \<lparr>inp = [NUL], lineno = 1\<rparr>)
      else Inl (Fatal 1 InvalidStringLit))
   \<and> lex E (init_lex [CHR ''/'', CHR ''*'', CHR ''a'', NL, CHR ''b'', CHR ''*'', CHR ''/'']) =
     Inr (\<lparr>kind = TEOF, tok_lineno = 2, u = U_none\<rparr>, \<lparr>inp = [NUL], lineno = 2\<rparr>)"
  by (simp add: lex_eval)

text \<open>
  White space and comments do count their newlines: what \<open>skip_spaces\<close> consumes
  raises the line counter by the number of newlines in it, so a source of white space
  and comments alone yields the end-of-file token on the line after its last newline.
\<close>

lemma skip_line_comment_loop_consumed:
  "skip_line_comment_loop s ln = Inr st' \<Longrightarrow>
   \<exists>consumed. s = consumed @ inp st' \<and> lineno st' = ln + count_list consumed NL"
proof (induction s ln rule: skip_line_comment_loop.induct)
  case (1 ln)
  then show ?case by simp
next
  case (2 c cs ln)
  show ?case
  proof (cases "c = NL")
    case True
    with 2(2) have "inp st' = cs" "lineno st' = ln + 1"
      by (auto simp: inc_lineno_def split: if_splits)
    with True have "c # cs = [c] @ inp st' \<and> lineno st' = ln + count_list [c] NL" by simp
    then show ?thesis by blast
  next
    case False
    with 2(2) have nz: "c \<noteq> NUL" and rec: "skip_line_comment_loop cs ln = Inr st'"
      by (simp_all split: if_splits)
    from "2.IH" [OF False nz rec] obtain consumed
      where "cs = consumed @ inp st'" "lineno st' = ln + count_list consumed NL" by blast
    with False have "c # cs = (c # consumed) @ inp st' \<and>
        lineno st' = ln + count_list (c # consumed) NL" by simp
    then show ?thesis by blast
  qed
qed

lemma skip_block_comment_loop_consumed:
  "skip_block_comment_loop s ln = Inr st' \<Longrightarrow>
   \<exists>consumed. s = consumed @ inp st' \<and> lineno st' = ln + count_list consumed NL"
proof (induction s ln arbitrary: st' rule: skip_block_comment_loop.induct)
  case (1 ln)
  then show ?case by simp
next
  case (2 c cs ln)
  show ?case
  proof (cases "starts2 (c # cs) (CHR ''*'') (CHR ''/'')")
    case (Inl e)
    with 2(3) show ?thesis by simp
  next
    case (Inr b)
    show ?thesis
    proof (cases b)
      case True
      with Inr 2(3) have st': "st' = \<lparr>inp = drop 1 cs, lineno = ln\<rparr>" by simp
      from Inr True obtain d ds where "c = CHR ''*''" "cs = d # ds" "d = CHR ''/''"
        by (auto simp: starts2_def split: if_splits list.splits)
      with st' have "c # cs = [c, d] @ inp st' \<and> lineno st' = ln + count_list [c, d] NL"
        by simp
      then show ?thesis by blast
    next
      case False
      with Inr have nb: "starts2 (c # cs) (CHR ''*'') (CHR ''/'') = Inr False" by simp
      show ?thesis
      proof (cases "c = NL")
        case True
        show ?thesis
        proof (cases "inc_lineno \<lparr>inp = c # cs, lineno = ln\<rparr>")
          case (Inl e)
          with 2(3) nb True show ?thesis by simp
        next
          case (Inr st)
          then have ln1: "lineno st = ln + 1"
            by (auto simp: inc_lineno_def split: if_splits)
          from 2(3) nb True Inr have "skip_block_comment_loop cs (lineno st) = Inr st'" by simp
          from "2.IH"(1) [OF nb refl True Inr this] obtain consumed
            where "cs = consumed @ inp st'" "lineno st' = lineno st + count_list consumed NL"
            by blast
          with True ln1 have "c # cs = (c # consumed) @ inp st' \<and>
              lineno st' = ln + count_list (c # consumed) NL" by simp
          then show ?thesis by blast
        qed
      next
        case False
        with 2(3) nb have ne: "c \<noteq> NUL" and r: "skip_block_comment_loop cs ln = Inr st'"
          by (simp_all split: if_splits)
        from "2.IH"(2) [OF nb refl False ne r] obtain consumed
          where "cs = consumed @ inp st'" "lineno st' = ln + count_list consumed NL" by blast
        with False have "c # cs = (c # consumed) @ inp st' \<and>
            lineno st' = ln + count_list (c # consumed) NL" by simp
        then show ?thesis by blast
      qed
    qed
  qed
qed

lemma starts2_True_cases:
  "starts2 s a b = Inr True \<Longrightarrow> \<exists>rest. s = a # b # rest"
  by (auto simp: starts2_def split: list.splits if_splits)

lemma skip_spaces_consumed:
  "skip_spaces st = Inr st' \<Longrightarrow>
   \<exists>consumed. inp st = consumed @ inp st' \<and> lineno st' = lineno st + count_list consumed NL"
proof (induction st arbitrary: st' rule: skip_spaces.induct)
  case (1 st)
  note res = "1.prems"
  show ?case
  proof (cases "inp st")
    case Nil
    with res show ?thesis by (simp add: skip_spaces.simps)
  next
    case (Cons c cs)
    show ?thesis
    proof (cases "isspace c")
      case True
      show ?thesis
      proof (cases "if c = NL then inc_lineno st else Inr st")
        case (Inl e)
        with res Cons True show ?thesis by (simp add: skip_spaces.simps)
      next
        case (Inr st1)
        then have st1: "lineno st1 = lineno st + count_list [c] NL"
          by (auto simp: inc_lineno_def split: if_splits)
        from res Cons True Inr have "skip_spaces (st1\<lparr>inp := cs\<rparr>) = Inr st'"
          by (simp add: skip_spaces.simps)
        from "1.IH"(1) [OF Cons True Inr this] obtain consumed
          where "cs = consumed @ inp st'" "lineno st' = lineno st1 + count_list consumed NL"
          by auto
        with st1 Cons have "inp st = (c # consumed) @ inp st' \<and>
            lineno st' = lineno st + count_list (c # consumed) NL" by simp
        then show ?thesis by blast
      qed
    next
      case False
      show ?thesis
      proof (cases "starts2 (inp st) (CHR ''/'') (CHR ''/'')")
        case (Inl e)
        with res Cons False show ?thesis by (simp add: skip_spaces.simps)
      next
        case (Inr b1)
        note r1 = Inr
        show ?thesis
        proof (cases b1)
          case True
          then have t1: "b1 = True" by simp
          from True Inr have s2: "starts2 (inp st) (CHR ''/'') (CHR ''/'') = Inr True" by simp
          then obtain rest where rest: "inp st = CHR ''/'' # CHR ''/'' # rest"
            by (auto dest: starts2_True_cases)
          show ?thesis
          proof (cases "skip_line_comment st")
            case (Inl e)
            with res Cons False s2 show ?thesis by (simp add: skip_spaces.simps)
          next
            case (Inr st1)
            with res Cons False s2 have rec: "skip_spaces st1 = Inr st'"
              by (simp add: skip_spaces.simps)
            from Inr rest obtain c1 where c1: "rest = c1 @ inp st1"
              "lineno st1 = lineno st + count_list c1 NL"
              unfolding skip_line_comment_def
              by (auto dest!: skip_line_comment_loop_consumed)
            from "1.IH"(2) [OF Cons False r1 t1 Inr rec] obtain c2
              where "inp st1 = c2 @ inp st'" "lineno st' = lineno st1 + count_list c2 NL"
              by auto
            with c1 rest have "inp st = (CHR ''/'' # CHR ''/'' # c1 @ c2) @ inp st' \<and>
                lineno st' = lineno st + count_list (CHR ''/'' # CHR ''/'' # c1 @ c2) NL"
              by simp
            then show ?thesis by blast
          qed
        next
          case nb1: False
          with Inr have s2: "starts2 (inp st) (CHR ''/'') (CHR ''/'') = Inr False" by simp
          from nb1 have f1: "b1 = False" by simp
          show ?thesis
          proof (cases "starts2 (inp st) (CHR ''/'') (CHR ''*'')")
            case (Inl e)
            with res Cons False s2 show ?thesis by (simp add: skip_spaces.simps)
          next
            case (Inr b2)
            note r2 = Inr
            show ?thesis
            proof (cases b2)
              case True
              then have t2: "b2 = True" by simp
              from True Inr have s3: "starts2 (inp st) (CHR ''/'') (CHR ''*'') = Inr True" by simp
              then obtain rest where rest: "inp st = CHR ''/'' # CHR ''*'' # rest"
                by (auto dest: starts2_True_cases)
              show ?thesis
              proof (cases "skip_block_comment st")
                case (Inl e)
                with res Cons False s2 s3 show ?thesis by (simp add: skip_spaces.simps)
              next
                case (Inr st1)
                with res Cons False s2 s3 have rec: "skip_spaces st1 = Inr st'"
                  by (simp add: skip_spaces.simps)
                from Inr rest obtain c1 where c1: "rest = c1 @ inp st1"
                  "lineno st1 = lineno st + count_list c1 NL"
                  unfolding skip_block_comment_def
                  by (auto dest!: skip_block_comment_loop_consumed)
                from "1.IH"(3) [OF Cons False r1 f1 r2 t2 Inr rec] obtain c2
                  where "inp st1 = c2 @ inp st'" "lineno st' = lineno st1 + count_list c2 NL"
                  by auto
                with c1 rest have "inp st = (CHR ''/'' # CHR ''*'' # c1 @ c2) @ inp st' \<and>
                    lineno st' = lineno st + count_list (CHR ''/'' # CHR ''*'' # c1 @ c2) NL"
                  by simp
                then show ?thesis by blast
              qed
            next
              case False
              with Inr res Cons \<open>\<not> isspace c\<close> s2 have "st' = st"
                by (simp add: skip_spaces.simps)
              then have "inp st = [] @ inp st' \<and> lineno st' = lineno st + count_list [] NL"
                by simp
              then show ?thesis by blast
            qed
          qed
        qed
      qed
    qed
  qed
qed

lemma lex_blank_source:
  assumes "skip_spaces (init_lex file) = Inr st'" and "inp st' = [NUL]"
  shows "lex E (init_lex file) =
           Inr (\<lparr>kind = TEOF, tok_lineno = 1 + count_list file NL, u = U_none\<rparr>, st')"
    and "lineno st' = 1 + count_list file NL"
proof -
  from skip_spaces_consumed [OF assms(1)] assms(2) obtain consumed
    where c: "file @ [NUL] = consumed @ [NUL]" "lineno st' = 1 + count_list consumed NL"
    by (auto simp: init_lex_def)
  then have "consumed = file" by simp
  with c show ln: "lineno st' = 1 + count_list file NL" by simp
  with assms show "lex E (init_lex file) =
           Inr (\<lparr>kind = TEOF, tok_lineno = 1 + count_list file NL, u = U_none\<rparr>, st')"
    by (simp add: lex_def init_basic_tok_def)
qed

subsection \<open>String literals\<close>

text \<open>
  Claim C7 does not hold of the code for the empty literal. The first byte after the
  opening quote is copied before any test for the closing quote: on the input \<open>""\<close>
  the scanner copies the closing quote and the final NUL and reads past the buffer,
  and on the input \<open>"" "x"\<close> it yields one string token of two bytes, the quote and
  the space.
\<close>

theorem empty_string_lit:
  "lex E (init_lex [DQUOTE, DQUOTE]) =
     (if MAX_STRING_SIZE E < 2 then Inl (Fatal 1 StringLitTooLong) else Inl OutOfBounds)
   \<and> lex E (init_lex [DQUOTE, DQUOTE, CHR '' '', DQUOTE, CHR ''x'', DQUOTE]) =
     (if MAX_STRING_SIZE E < 2 then Inl (Fatal 1 StringLitTooLong)
      else if is_valid_utf8 E [DQUOTE, CHR '' '']
      then Inr (\<lparr>kind = STRING_LIT, tok_lineno = 1, u = U_string_lit [DQUOTE, CHR '' ''] 2\<rparr>,
                \<lparr>inp = [CHR ''x'', DQUOTE, NUL], lineno = 1\<rparr>)
      else Inl (Fatal 1 InvalidStringLit))"
  by (simp add: lex_eval)

text \<open>
  A literal with at least one byte between its quotes is copied as the claim says:
  the bytes up to the first closing quote after the first byte, or the too-long
  error when they are more than the limit.
\<close>

lemma lex_string_lit_loop_content:
  "bs \<noteq> [] \<Longrightarrow> DQUOTE \<notin> set (tl bs) \<Longrightarrow> len + length bs \<le> mx \<Longrightarrow>
   lex_string_lit_loop mx ln (bs @ DQUOTE # rest) acc len =
     Inr (DQUOTE # rest, acc @ bs, len + length bs)"
proof (induction bs arbitrary: acc len)
  case Nil
  then show ?case by simp
next
  case (Cons c cs)
  show ?case
  proof (cases cs)
    case Nil
    with Cons.prems show ?thesis by simp
  next
    case (Cons d ds)
    with Cons.prems have d: "d \<noteq> DQUOTE" and nq: "DQUOTE \<notin> set (tl cs)" by auto
    from Cons Cons.prems nq
    have "lex_string_lit_loop mx ln (cs @ DQUOTE # rest) (acc @ [c]) (len + 1) =
          Inr (DQUOTE # rest, (acc @ [c]) @ cs, (len + 1) + length cs)"
      by (intro Cons.IH) auto
    with Cons Cons.prems d show ?thesis by simp
  qed
qed

lemma lex_string_lit_loop_too_long:
  "DQUOTE \<notin> set (tl bs) \<Longrightarrow> len \<le> mx \<Longrightarrow> mx < len + length bs \<Longrightarrow>
   lex_string_lit_loop mx ln (bs @ DQUOTE # rest) acc len = Inl (Fatal ln StringLitTooLong)"
proof (induction bs arbitrary: acc len)
  case Nil
  then show ?case by simp
next
  case (Cons c cs)
  show ?case
  proof (cases "len = mx")
    case True
    then show ?thesis by simp
  next
    case False
    show ?thesis
    proof (cases cs)
      case Nil
      with Cons.prems False show ?thesis by simp
    next
      case (Cons d ds)
      with Cons.prems have d: "d \<noteq> DQUOTE" and nq: "DQUOTE \<notin> set (tl cs)" by auto
      from Cons Cons.prems False nq
      have "lex_string_lit_loop mx ln (cs @ DQUOTE # rest) (acc @ [c]) (len + 1) =
            Inl (Fatal ln StringLitTooLong)"
        by (intro Cons.IH) auto
      with Cons False d show ?thesis by simp
    qed
  qed
qed

lemma lex_string_lit_content:
  assumes "bs \<noteq> []" and "DQUOTE \<notin> set (tl bs)"
  shows "lex E \<lparr>inp = DQUOTE # bs @ DQUOTE # rest, lineno = n\<rparr> =
     (if MAX_STRING_SIZE E < length bs then Inl (Fatal n StringLitTooLong)
      else if is_valid_utf8 E (c_str bs)
      then Inr (\<lparr>kind = STRING_LIT, tok_lineno = n, u = U_string_lit (c_str bs) (length bs)\<rparr>,
                \<lparr>inp = rest, lineno = n\<rparr>)
      else Inl (Fatal n InvalidStringLit))"
proof -
  have sk: "skip_spaces \<lparr>inp = DQUOTE # bs @ DQUOTE # rest, lineno = n\<rparr> =
            Inr \<lparr>inp = DQUOTE # bs @ DQUOTE # rest, lineno = n\<rparr>"
    by (rule skip_spaces_stop) (simp_all add: isspace_def IN_RANGE_def)
  show ?thesis
  proof (cases "MAX_STRING_SIZE E < length bs")
    case True
    with assms have "lex_string_lit_loop (MAX_STRING_SIZE E) n (bs @ DQUOTE # rest) [] 0 =
        Inl (Fatal n StringLitTooLong)"
      by (intro lex_string_lit_loop_too_long) auto
    with True show ?thesis by (simp add: lex_def sk lex_string_lit_def)
  next
    case False
    with assms have "lex_string_lit_loop (MAX_STRING_SIZE E) n (bs @ DQUOTE # rest) [] 0 =
        Inr (DQUOTE # rest, [] @ bs, 0 + length bs)"
      by (intro lex_string_lit_loop_content) auto
    with False show ?thesis
      by (simp add: lex_def sk lex_string_lit_def init_string_lit_tok_def)
  qed
qed

section \<open>Properties of the code generator\<close>

subsection \<open>Type lowering\<close>

text \<open>
  Claim C5 does not hold of the code for function types. \<open>get_llvm_type\<close> lowers the
  return type and passes LLVM an array of parameter types that it never writes to:
  for the function type from \<open>I32\<close> and \<open>F64\<close> to \<open>bool\<close> both parameter slots hold what
  \<open>xmalloc\<close> returned, not the lowered \<open>I32\<close> and \<open>F64\<close>. The tuple of the same two types
  is lowered member by member.
\<close>

theorem func_type_params_not_lowered:
  "get_llvm_type (FUNC_TYPE [I32_TYPE, F64_TYPE] BOOL_TYPE) =
     Inr (LLVMFunctionType LLVMInt1Type [None, None] False)
   \<and> get_llvm_type (TUPLE_TYPE [I32_TYPE, F64_TYPE]) =
     Inr (LLVMStructType [Some LLVMInt32Type, Some LLVMDoubleType] False)"
  by (simp add: numeral_2_eq_2)

text \<open>
  The other rules hold: lowering is total on fully resolved types, an array of length
  zero becomes the fat pointer and any other array an LLVM array, and a tuple the
  struct of its lowered members; of a function type only the return type is lowered.
\<close>

lemma collect_map_Inr:
  "(\<And>x. x \<in> set xs \<Longrightarrow> \<exists>y. f x = Inr y) \<Longrightarrow>
   \<exists>ys. collect (map f xs) = Inr ys \<and> length ys = length xs \<and>
        (\<forall>i<length xs. f (xs ! i) = Inr (ys ! i))"
proof (induction xs)
  case Nil
  then show ?case by simp
next
  case (Cons x xs)
  from Cons.prems obtain y where y: "f x = Inr y" by auto
  from Cons obtain ys where ys: "collect (map f xs) = Inr ys" "length ys = length xs"
    "\<forall>i<length xs. f (xs ! i) = Inr (ys ! i)" by auto
  have "\<forall>i<length (x # xs). f ((x # xs) ! i) = Inr ((y # ys) ! i)"
    using y ys(3) by (auto simp: nth_Cons split: nat.splits)
  with y ys show ?case by auto
qed

lemma get_llvm_type_total: "resolved t \<Longrightarrow> \<exists>lt. get_llvm_type t = Inr lt"
proof (induction t rule: get_llvm_type.induct)
  case (19 types)
  then have "\<And>x. x \<in> set types \<Longrightarrow> \<exists>y. get_llvm_type x = Inr y"
    by (auto simp: list_all_iff)
  from collect_map_Inr [of types get_llvm_type, OF this] show ?case by auto
qed auto

lemma get_llvm_type_array:
  "get_llvm_type l = Inr item_type \<Longrightarrow>
   get_llvm_type (ARRAY_TYPE l len) =
     (if len = 0
      then Inr (LLVMStructType [Some LLVMInt16Type, Some (LLVMPointerType item_type 0)] False)
      else Inr (LLVMArrayType item_type len))"
  by (simp add: get_fat_ptr_type_def)

lemma get_llvm_type_tuple:
  assumes "list_all resolved types"
  shows "\<exists>llvm_types. get_llvm_type (TUPLE_TYPE types) =
                        Inr (LLVMStructType (map Some llvm_types) False) \<and>
           length llvm_types = length types \<and>
           (\<forall>i<length types. get_llvm_type (types ! i) = Inr (llvm_types ! i))"
proof -
  from assms have "\<And>x. x \<in> set types \<Longrightarrow> \<exists>y. get_llvm_type x = Inr y"
    by (auto simp: list_all_iff intro: get_llvm_type_total)
  from collect_map_Inr [of types get_llvm_type, OF this] show ?thesis by auto
qed

lemma get_llvm_type_func:
  "get_llvm_type (FUNC_TYPE params ret) = Inr ft \<Longrightarrow>
   \<exists>t. get_llvm_type ret = Inr t \<and>
       ft = LLVMFunctionType t (replicate (length params) None) False"
  by (auto split: sum.splits)

subsection \<open>Compound assignment\<close>

lemma LLVMBuild_appends:
  "insert_block s < length (blocks s) \<Longrightarrow>
   LLVMBuild (Some b) opc ops name s = Inr (Instr opc ops name, append_instrs s [Instr opc ops name])"
  by (simp add: LLVMBuild_def append_instrs_def)

lemma append_instrs_frame [simp]:
  "insert_block (append_instrs s is) = insert_block s"
  "length (blocks (append_instrs s is)) = length (blocks s)"
  by (simp_all add: append_instrs_def)

lemma append_instrs_append:
  "insert_block s < length (blocks s) \<Longrightarrow>
   append_instrs (append_instrs s xs) ys = append_instrs s (xs @ ys)"
  by (simp add: append_instrs_def)

text \<open>
  Claim C2 does not hold of the code in its last part. Take a compound assignment in
  runtime mode whose operands are emitted without failure, the left one first and
  once, giving the address \<open>l\<close>, then the right one, giving \<open>r\<close>. The emitter appends
  exactly three instructions to the current block: one load from \<open>l\<close>, the instruction
  of the operator on the loaded value and \<open>r\<close>, and one store of the new value to \<open>l\<close>.
  The value it returns is the store instruction, not the new value that is stored.
\<close>

theorem compound_assign_emission:
  assumes op: "compound_assign_instr op t (Instr LLVMLoad [l] ''assign_load'') r = Some new_val"
    and t: "get_llvm_type t = Inr lt"
    and l: "emit_expr (Some b) l_expr s = Inr (l, s1)"
    and r: "emit_expr (Some b) r_expr s1 = Inr (r, s2)"
    and pos: "insert_block s2 < length (blocks s2)"
  shows "emit_expr (Some b) (BIN_OP_EXPR t op l_expr r_expr) s =
     Inr (Instr LLVMStore [new_val, l] [],
          append_instrs s2
            [Instr LLVMLoad [l] ''assign_load'', new_val, Instr LLVMStore [new_val, l] []])"
proof -
  let ?old = "Instr LLVMLoad [l] ''assign_load''"
  let ?s3 = "append_instrs s2 [?old]"
  have asg: "is_assignment op"
    using op by (cases op) (simp_all add: compound_assign_instr_def is_assignment_def)
  have sw: "emit_bin_op_switch (Some b) op l r t ?old ?s3 =
     Inr (Instr LLVMStore [new_val, l] [],
          append_instrs s2 [?old, new_val, Instr LLVMStore [new_val, l] []])"
    using op pos
    by (cases op)
       (auto simp: compound_assign_instr_def emit_bin_op_switch_def ebind_def
          emit_add_def emit_sub_def emit_mul_def emit_div_def emit_mod_def
          LLVMBuild_appends append_instrs_append)
  have "emit_expr (Some b) (BIN_OP_EXPR t op l_expr r_expr) s =
        emit_bin_op_switch (Some b) op l r t ?old ?s3"
    using t l r asg pos by (simp add: ebind_def elift_def LLVMBuild_appends)
  with sw show ?thesis by simp
qed

text \<open>
  The assignment \<open>a += 1\<close> with \<open>a\<close> of type \<open>U32\<close>, emitted into an empty entry block
  (the emitter's stub for identifiers returns NULL for the address of \<open>a\<close>).
\<close>

theorem compound_assign_emission_witness:
  "emit_expr (Some ())
     (BIN_OP_EXPR U32_TYPE ADD_ASSIGN_OP (IDENT_EXPR U32_TYPE ''a'') (INT_LIT_EXPR U32_TYPE 1))
     entry_state =
   Inr (Instr LLVMStore
          [Instr LLVMAdd [Instr LLVMLoad [NULL_VALUE] ''assign_load'',
                          LLVMConstInt LLVMInt32Type 1 False] ''add'',
           NULL_VALUE] [],
        \<lparr>blocks =
           [(''f'',
             [Instr LLVMLoad [NULL_VALUE] ''assign_load'',
              Instr LLVMAdd [Instr LLVMLoad [NULL_VALUE] ''assign_load'',
                             LLVMConstInt LLVMInt32Type 1 False] ''add'',
              Instr LLVMStore
                [Instr LLVMAdd [Instr LLVMLoad [NULL_VALUE] ''assign_load'',
                                LLVMConstInt LLVMInt32Type 1 False] ''add'',
                 NULL_VALUE] []])],
         insert_block = 0, sym_tbl = [[]]\<rparr>)"
  using compound_assign_emission
    [of ADD_ASSIGN_OP U32_TYPE NULL_VALUE "LLVMConstInt LLVMInt32Type 1 False" _ LLVMInt32Type
        "()" "IDENT_EXPR U32_TYPE ''a''" entry_state entry_state "INT_LIT_EXPR U32_TYPE 1"
        entry_state]
  by (simp add: compound_assign_instr_def is_float_type_def entry_state_def append_instrs_def
      ebind_def elift_def ereturn_def)

subsection \<open>Do-while statements\<close>

text \<open>
  Claim C1 does not hold of the code. Take \<open>do { i += 1; } while (i < 10);\<close> emitted into
  a function whose entry block is \<open>f\<close>. The comparison is emitted once, into \<open>f\<close>, before
  the body block exists; \<open>f\<close> gets no branch into the body block and stays without a
  terminator; the body block \<open>do\<close> holds the body and a conditional branch (to \<open>do\<close>, block
  1, when true and to \<open>after_do\<close>, block 2, when false) on the value computed in \<open>f\<close>,
  which is not computed again.
\<close>

theorem do_stmt_emission:
  "emit_stmt (Some ()) sample_do_stmt entry_state =
     Inr ((),
       \<lparr>blocks =
          [(''f'',
            [Instr (LLVMICmp LLVMIntSLT) [NULL_VALUE, LLVMConstInt LLVMInt32Type 10 False] ''lt'']),
           (''do'',
            [Instr LLVMLoad [NULL_VALUE] ''assign_load'',
             Instr LLVMAdd [Instr LLVMLoad [NULL_VALUE] ''assign_load'',
                            LLVMConstInt LLVMInt32Type 1 False] ''add'',
             Instr LLVMStore
               [Instr LLVMAdd [Instr LLVMLoad [NULL_VALUE] ''assign_load'',
                               LLVMConstInt LLVMInt32Type 1 False] ''add'',
                NULL_VALUE] [],
             Instr (LLVMCondBr 1 2)
               [Instr (LLVMICmp LLVMIntSLT)
                  [NULL_VALUE, LLVMConstInt LLVMInt32Type 10 False] ''lt''] []]),
           (''after_do'', [])],
        insert_block = 2, sym_tbl = [[]]\<rparr>)"
  by (simp add: sample_do_stmt_def entry_state_def ebind_def elift_def ereturn_def
      get_cur_func_def LLVMAppendBasicBlock_def LLVMPositionBuilderAtEnd_def LLVMBuild_def
      is_assignment_def emit_bin_op_switch_def emit_add_def emit_lt_def
      is_float_type_def is_unsigned_int_type_def)

text \<open>
  Every do-while statement has this shape: once the condition is emitted, the two
  blocks are appended, the body is emitted into the first, and the conditional branch
  on the value computed before the loop ends the body.
\<close>

lemma emit_do_stmt_shape:
  assumes "emit_expr (Some b) cond s = Inr (cond_val, s1)"
  shows "emit_do_stmt (Some b) (DO_STMT stmts cond) s =
     (case emit_stmts (Some b) stmts
             (s1\<lparr>blocks := blocks s1 @ [(''do'', []), (''after_do'', [])],
                 insert_block := length (blocks s1)\<rparr>) of
        Inl e \<Rightarrow> Inl e
      | Inr (x, s2) \<Rightarrow>
          (case LLVMBuild (Some b)
                  (LLVMCondBr (length (blocks s1)) (Suc (length (blocks s1)))) [cond_val] [] s2 of
             Inl e \<Rightarrow> Inl e
           | Inr (br, s3) \<Rightarrow> Inr ((), s3\<lparr>insert_block := Suc (length (blocks s1))\<rparr>)))"
  using assms
  by (simp add: ebind_def get_cur_func_def ereturn_def LLVMAppendBasicBlock_def
      LLVMPositionBuilderAtEnd_def split: sum.splits prod.splits)

end
